theory Spec2Isabelle
  imports Main "HOL-Library.Word"
begin

unbundle bit_operations_syntax

section \<open>SkPathRef: the data model\<close>

text \<open>
  The embedding follows \<^verbatim>\<open>include/core/SkPathRef.h\<close>.

  Machine integers are words: \<^verbatim>\<open>size_t\<close>, \<^verbatim>\<open>ptrdiff_t\<close> and
  \<^verbatim>\<open>intptr_t\<close> are 64 bits wide (\<^verbatim>\<open>ptrdiff_t\<close> is the signed reading of the same
  word), \<^verbatim>\<open>int\<close> and \<^verbatim>\<open>int32_t\<close> are 32 bits wide. An \<^verbatim>\<open>int\<close> that
  meets a \<^verbatim>\<open>size_t\<close> in an expression is sign-extended (\<open>scast\<close>), as the usual
  arithmetic conversions of C++ do.

  One byte of an allocation is a \<open>cell\<close>: \<open>None\<close> is a byte that has not been written
  since the block was allocated (its value is indeterminate), \<open>Some b\<close> a byte holding \<open>b\<close>.
  A scalar is the bit pattern of an \<^verbatim>\<open>SkScalar\<close>; the container never does arithmetic on
  one, it stores, copies and compares them.
\<close>

type_synonym byte = "8 word"
type_synonym cell = "byte option"
type_synonym size_t = "64 word"
type_synonym int32 = "32 word"
type_synonym SkScalar = "32 word"

record SkRect =
  fLeft :: SkScalar
  fTop :: SkScalar
  fRight :: SkScalar
  fBottom :: SkScalar

text \<open>
  The members of \<^verbatim>\<open>SkPathRef\<close> (lines 579 to 594), with \<open>fRefCnt\<close> of the base class
  \<^verbatim>\<open>SkRefCnt\<close>. \<open>fPoints\<close> is the allocation the pointer \<^verbatim>\<open>fPoints\<close> refers to:
  \<open>None\<close> is the null pointer, \<open>Some m\<close> a block whose bytes are \<open>m\<close>, the byte at offset
  \<open>i\<close> from \<^verbatim>\<open>fPoints\<close> being \<open>m ! i\<close>. The source assigns \<^verbatim>\<open>fVerbs\<close> in three places
  (lines 366, 437 and 506) and always together with \<^verbatim>\<open>fPoints\<close>: both null, or
  \<^verbatim>\<open>fVerbs = fPoints + newSize\<close> right after the block was resized to \<^verbatim>\<open>newSize\<close>
  bytes. So \<^verbatim>\<open>fVerbs\<close> is the end of the block and has no field of its own.
  \<open>fBounds\<close> and \<open>fIsFinite\<close> are not set by the constructor: \<open>None\<close> is their
  indeterminate value.
\<close>

record SkPathRef =
  fRefCnt :: int32
  fBounds :: "SkRect option"
  fBoundsIsDirty :: bool
  fIsFinite :: "bool option"
  fPoints :: "cell list option"
  fVerbCnt :: int32
  fPointCnt :: int32
  fFreeSpace :: size_t
  fConicWeights :: "SkScalar option list"
  fGenerationID :: int32
  fEditorsAttached :: int32

definition kMinSize :: size_t where
  "kMinSize = 256"

definition kEmptyGenID :: int32 where
  "kEmptyGenID = 1"

text \<open>
  Modelled from the spec: \<^verbatim>\<open>sizeof(SkPoint)\<close>; \<^verbatim>\<open>SkPoint.h\<close> is not among the sources.
  A point is two packed 32-bit scalars, x then y (section 6.2 of the spec), hence 8 bytes.
\<close>

definition sizeof_SkPoint :: size_t where
  "sizeof_SkPoint = 8"

definition sizeof_uint8 :: size_t where
  "sizeof_uint8 = 1"

text \<open>Line 522: \<^verbatim>\<open>currSize\<close> is \<^verbatim>\<open>fVerbs - fPoints\<close>, the size of the block.\<close>

definition currSize :: "SkPathRef \<Rightarrow> size_t" where
  "currSize s = (case fPoints s of None \<Rightarrow> 0 | Some m \<Rightarrow> of_nat (length m))"

text \<open>The bytes of the block (none behind a null pointer).\<close>

definition block :: "SkPathRef \<Rightarrow> cell list" where
  "block s = (case fPoints s of None \<Rightarrow> [] | Some m \<Rightarrow> m)"

text \<open>
  Lines 362 to 372: the constructor. The reference count starts at 1
  (\<^verbatim>\<open>SkRefCnt\<close>), the weights array is empty.
\<close>

definition SkPathRef_ctor :: SkPathRef where
  "SkPathRef_ctor =
     \<lparr> fRefCnt = 1, fBounds = None, fBoundsIsDirty = True, fIsFinite = None,
       fPoints = None, fVerbCnt = 0, fPointCnt = 0, fFreeSpace = 0,
       fConicWeights = [], fGenerationID = kEmptyGenID, fEditorsAttached = 0 \<rparr>"

text \<open>
  Lines 549 to 558: what \<^verbatim>\<open>validate\<close> asserts in every build, conjunct by conjunct.
  The assertions on the nullness of \<^verbatim>\<open>fVerbs\<close> say the same of \<open>fPoints\<close> here.
  The last conjunct is the allocation-size equation, in \<^verbatim>\<open>size_t\<close> arithmetic.
\<close>

definition size_equation :: "SkPathRef \<Rightarrow> bool" where
  "size_equation s \<longleftrightarrow>
     currSize s = fFreeSpace s + sizeof_SkPoint * scast (fPointCnt s)
                    + sizeof_uint8 * scast (fVerbCnt s)"

definition validate :: "SkPathRef \<Rightarrow> bool" where
  "validate s \<longleftrightarrow>
     0 \<le>s fFreeSpace s \<and>
     0 \<le>s currSize s \<and>
     \<not> (fPoints s = None \<and> fFreeSpace s \<noteq> 0) \<and>
     \<not> (fPoints s = None \<and> fPointCnt s \<noteq> 0) \<and>
     \<not> (fPoints s = None \<and> fVerbCnt s \<noteq> 0) \<and>
     size_equation s"

text \<open>
  What the model adds to \<^verbatim>\<open>validate\<close> for a storage to be well formed: the block
  is addressable by a \<^verbatim>\<open>size_t\<close>, and the two counts are counts (not negative).
\<close>

definition well_formed :: "SkPathRef \<Rightarrow> bool" where
  "well_formed s \<longleftrightarrow>
     validate s \<and> length (block s) < 2 ^ 64 \<and> 0 \<le>s fVerbCnt s \<and> 0 \<le>s fPointCnt s"

subsection \<open>The regions of the block\<close>

text \<open>
  The points are the first \<^verbatim>\<open>fPointCnt * sizeof(SkPoint)\<close> bytes (from \<^verbatim>\<open>fPoints\<close>),
  the verbs the last \<^verbatim>\<open>fVerbCnt\<close> bytes (from \<^verbatim>\<open>verbsMemBegin()\<close>, line 274, to
  \<^verbatim>\<open>fVerbs\<close>).
\<close>

definition point_bytes :: "SkPathRef \<Rightarrow> cell list" where
  "point_bytes s = take (8 * nat (sint (fPointCnt s))) (block s)"

definition verb_bytes :: "SkPathRef \<Rightarrow> cell list" where
  "verb_bytes s = drop (length (block s) - nat (sint (fVerbCnt s))) (block s)"

section \<open>The raw storage buffer\<close>

text \<open>
  Memory accesses. A transfer that leaves the block is undefined behaviour in the source;
  here it has no result (\<open>None\<close>), so that a result \<open>Some\<close> says every access stayed inside
  the block. A transfer of no bytes touches nothing, whatever the pointers are (the source
  copies zero bytes from and to null pointers when a path is empty).
\<close>

definition mem_read :: "cell list \<Rightarrow> nat \<Rightarrow> nat \<Rightarrow> cell list option" where
  "mem_read m off n =
     (if n = 0 then Some []
      else if off + n \<le> length m then Some (take n (drop off m))
      else None)"

definition mem_write :: "cell list \<Rightarrow> nat \<Rightarrow> cell list \<Rightarrow> cell list option" where
  "mem_write m off bs =
     (if bs = [] then Some m
      else if off + length bs \<le> length m
        then Some (take off m @ bs @ drop (off + length bs) m)
      else None)"

text \<open>\<^verbatim>\<open>memmove(dst, src, n)\<close> inside one block: the bytes are read before any is written.\<close>

definition memmove :: "cell list \<Rightarrow> nat \<Rightarrow> nat \<Rightarrow> nat \<Rightarrow> cell list option" where
  "memmove m dst src n =
     (case mem_read m src n of
        None \<Rightarrow> None
      | Some bs \<Rightarrow> mem_write m dst bs)"

text \<open>
  \<^verbatim>\<open>sk_realloc_throw(p, n)\<close>: the first \<open>min n (old size)\<close> bytes are kept, the bytes after
  them are indeterminate; a null \<open>p\<close> allocates. The function never returns null: when the
  allocator has no memory it aborts the process, and the model has no state after that, so
  it describes the runs in which the allocator grants the request.
\<close>

definition sk_realloc_throw :: "cell list option \<Rightarrow> nat \<Rightarrow> cell list" where
  "sk_realloc_throw p n =
     (case p of
        None \<Rightarrow> replicate n None
      | Some m \<Rightarrow> take n m @ replicate (n - length m) None)"

text \<open>
  Lines 480 to 509. \<^verbatim>\<open>growSize\<close> is a \<^verbatim>\<open>ptrdiff_t\<close>: the tests \<^verbatim>\<open>growSize <= 0\<close> and
  \<^verbatim>\<open>growSize < kMinSize\<close> are signed, the test against \<^verbatim>\<open>oldSize\<close> is made after a cast
  to \<^verbatim>\<open>size_t\<close> and is unsigned. The offsets of the two \<^verbatim>\<open>memmove\<close> pointers from
  \<^verbatim>\<open>fPoints\<close> are \<^verbatim>\<open>newSize - oldVerbSize\<close> and \<^verbatim>\<open>oldSize - oldVerbSize\<close>.
  The parameter \<^verbatim>\<open>size\<close> is \<open>sz\<close> here.
\<close>

definition makeSpace :: "SkPathRef \<Rightarrow> size_t \<Rightarrow> SkPathRef option" where
  "makeSpace s sz =
     (let growSize = sz - fFreeSpace s in
      if growSize \<le>s 0 then Some s
      else
        let oldSize = currSize s;
            growSize = (growSize + 7) AND NOT 7;
            growSize = (if growSize < oldSize then oldSize else growSize);
            growSize = (if growSize <s kMinSize then kMinSize else growSize);
            newSize = oldSize + growSize;
            m = sk_realloc_throw (fPoints s) (unat newSize);
            oldVerbSize = scast (fVerbCnt s) * sizeof_uint8
        in case memmove m (unat (newSize - oldVerbSize)) (unat (oldSize - oldVerbSize))
                  (unat oldVerbSize) of
             None \<Rightarrow> None
           | Some m' \<Rightarrow> Some (s\<lparr>fPoints := Some m', fFreeSpace := fFreeSpace s + growSize\<rparr>))"

text \<open>Lines 413 to 418.\<close>

definition incReserve :: "SkPathRef \<Rightarrow> int32 \<Rightarrow> int32 \<Rightarrow> SkPathRef option" where
  "incReserve s additionalVerbs additionalPoints =
     (let space = scast additionalVerbs * sizeof_uint8 + scast additionalPoints * sizeof_SkPoint
      in makeSpace s space)"

text \<open>
  Addition of two \<^verbatim>\<open>int\<close>s. Signed overflow is undefined behaviour in C++: no result.
\<close>

definition int_add :: "int32 \<Rightarrow> int32 \<Rightarrow> int32 option" where
  "int_add a b = (if sint (a + b) = sint a + sint b then Some (a + b) else None)"

text \<open>Lines 458 to 467.\<close>

definition grow :: "SkPathRef \<Rightarrow> int32 \<Rightarrow> int32 \<Rightarrow> SkPathRef option" where
  "grow s newVerbs newPoints =
     (let space = scast newVerbs * sizeof_uint8 + scast newPoints * sizeof_SkPoint
      in case makeSpace s space of
           None \<Rightarrow> None
         | Some s1 \<Rightarrow>
             (case int_add (fVerbCnt s1) newVerbs of
                None \<Rightarrow> None
              | Some v \<Rightarrow>
                  (case int_add (fPointCnt s1) newPoints of
                     None \<Rightarrow> None
                   | Some p \<Rightarrow>
                       Some (s1\<lparr>fVerbCnt := v, fPointCnt := p,
                                fFreeSpace := fFreeSpace s1 - space,
                                fBoundsIsDirty := True\<rparr>))))"

text \<open>
  Modelled from the spec: \<^verbatim>\<open>SkTDArray::setCount\<close> (\<^verbatim>\<open>SkTDArray.h\<close> is not among the
  sources): "resizes, new entries uninitialized" (section 4.2). The entries kept are the
  leading ones.
\<close>

definition setCount :: "'a option list \<Rightarrow> int32 \<Rightarrow> 'a option list" where
  "setCount xs count =
     (let n = nat (sint count) in take n xs @ replicate (n - length xs) None)"

text \<open>
  Lines 422 to 452. \<^verbatim>\<open>sizeDelta\<close> is a \<^verbatim>\<open>ptrdiff_t\<close>: \<^verbatim>\<open>sizeDelta < 0\<close> is a signed
  test; the second test is unsigned, against \<^verbatim>\<open>3 * minSize\<close> in \<^verbatim>\<open>size_t\<close> arithmetic.
\<close>

definition resetToSize ::
  "SkPathRef \<Rightarrow> int32 \<Rightarrow> int32 \<Rightarrow> int32 \<Rightarrow> int32 \<Rightarrow> int32 \<Rightarrow> SkPathRef option" where
  "resetToSize s0 verbCount pointCount conicCount reserveVerbs reservePoints =
     (let s = s0\<lparr>fBoundsIsDirty := True, fGenerationID := 0\<rparr>;
          newSize = sizeof_uint8 * scast verbCount + sizeof_SkPoint * scast pointCount;
          newReserve = sizeof_uint8 * scast reserveVerbs + sizeof_SkPoint * scast reservePoints;
          minSize = newSize + newReserve;
          sizeDelta = currSize s - minSize;
          r = (if sizeDelta <s 0 \<or> 3 * minSize \<le> sizeDelta then
                 (case makeSpace (s\<lparr>fPoints := None, fFreeSpace := 0,
                                     fVerbCnt := 0, fPointCnt := 0\<rparr>) minSize of
                    None \<Rightarrow> None
                  | Some s1 \<Rightarrow>
                      Some (s1\<lparr>fVerbCnt := verbCount, fPointCnt := pointCount,
                               fFreeSpace := fFreeSpace s1 - newSize\<rparr>))
               else
                 Some (s\<lparr>fPointCnt := pointCount, fVerbCnt := verbCount,
                         fFreeSpace := currSize s - minSize\<rparr>))
      in case r of
           None \<Rightarrow> None
         | Some s2 \<Rightarrow> Some (s2\<lparr>fConicWeights := setCount (fConicWeights s2) conicCount\<rparr>))"

text \<open>
  The test of line 434 on its own: does \<^verbatim>\<open>resetToSize\<close> free the block and allocate
  anew?
\<close>

definition reallocates :: "SkPathRef \<Rightarrow> int32 \<Rightarrow> int32 \<Rightarrow> int32 \<Rightarrow> int32 \<Rightarrow> bool" where
  "reallocates s verbCount pointCount reserveVerbs reservePoints =
     (let newSize = sizeof_uint8 * scast verbCount + sizeof_SkPoint * scast pointCount;
          newReserve = sizeof_uint8 * scast reserveVerbs + sizeof_SkPoint * scast reservePoints;
          minSize = newSize + newReserve;
          sizeDelta = currSize s - minSize
      in sizeDelta <s 0 \<or> 3 * minSize \<le> sizeDelta)"

text \<open>
  Lines 374 to 390: \<^verbatim>\<open>copy\<close>, on \<open>this\<close>, from \<open>ref\<close>. The verbs are copied to
  \<^verbatim>\<open>verbsMemWritable()\<close> (line 516: \<^verbatim>\<open>fVerbs - fVerbCnt\<close>) from \<^verbatim>\<open>verbsMemBegin()\<close>
  of \<open>ref\<close>, the points to \<^verbatim>\<open>fPoints\<close> from \<^verbatim>\<open>ref.fPoints\<close>.
\<close>

definition verbsMemBegin :: "SkPathRef \<Rightarrow> nat" where
  "verbsMemBegin s = unat (currSize s - scast (fVerbCnt s))"

definition set_block :: "SkPathRef \<Rightarrow> cell list \<Rightarrow> SkPathRef" where
  "set_block s m = (case fPoints s of None \<Rightarrow> s | Some _ \<Rightarrow> s\<lparr>fPoints := Some m\<rparr>)"

definition copy :: "SkPathRef \<Rightarrow> SkPathRef \<Rightarrow> int32 \<Rightarrow> int32 \<Rightarrow> SkPathRef option" where
  "copy this ref additionalReserveVerbs additionalReservePoints =
     (case resetToSize this (fVerbCnt ref) (fPointCnt ref) (of_nat (length (fConicWeights ref)))
             additionalReserveVerbs additionalReservePoints of
        None \<Rightarrow> None
      | Some t \<Rightarrow>
          (case mem_read (block ref) (verbsMemBegin ref)
                  (unat (scast (fVerbCnt ref) * sizeof_uint8)) of
             None \<Rightarrow> None
           | Some vs \<Rightarrow>
               (case mem_write (block t) (verbsMemBegin t) vs of
                  None \<Rightarrow> None
                | Some m1 \<Rightarrow>
                    (case mem_read (block ref) 0
                            (unat (scast (fPointCnt ref) * sizeof_SkPoint)) of
                       None \<Rightarrow> None
                     | Some ps \<Rightarrow>
                         (case mem_write m1 0 ps of
                            None \<Rightarrow> None
                          | Some m2 \<Rightarrow>
                              (let t1 = (set_block t m2)
                                     \<lparr>fConicWeights := fConicWeights ref,
                                      fGenerationID := fGenerationID ref,
                                      fBoundsIsDirty := fBoundsIsDirty ref\<rparr>
                               in Some (if \<not> fBoundsIsDirty t1
                                        then t1\<lparr>fBounds := fBounds ref,
                                                fIsFinite := fIsFinite ref\<rparr>
                                        else t1)))))))"

section \<open>The bounds cache\<close>

text \<open>
  The collaborators the header calls and does not define: \<^verbatim>\<open>SkPoint::isFinite\<close>,
  \<^verbatim>\<open>SkRect::isFinite\<close> and \<^verbatim>\<open>SkRect::setBoundsCheck\<close> (which returns the bounds and
  whether they are finite). They are parameters; a point is given by its bytes.
\<close>

record collaborators =
  SkPoint_isFinite :: "cell list \<Rightarrow> bool"
  SkRect_isFinite :: "SkRect \<Rightarrow> bool"
  setBoundsCheck :: "cell list \<Rightarrow> SkRect \<times> bool"

text \<open>\<^verbatim>\<open>SkRect::setEmpty\<close>: the rectangle (0,0,0,0), as the comment of line 146 says.\<close>

definition setEmpty :: SkRect where
  "setEmpty = \<lparr>fLeft = 0, fTop = 0, fRight = 0, fBottom = 0\<rparr>"

text \<open>
  Lines 393 to 401. \<^verbatim>\<open>ref.points()->isFinite()\<close> reads the first point, 8 bytes from
  \<^verbatim>\<open>fPoints\<close>; \<^verbatim>\<open>setBoundsCheck\<close> reads \<^verbatim>\<open>count\<close> points.
\<close>

definition ComputePtBounds :: "collaborators \<Rightarrow> SkPathRef \<Rightarrow> (SkRect \<times> bool) option" where
  "ComputePtBounds X ref =
     (let count = fPointCnt ref in
      if count \<le>s 1 then
        (if count \<noteq> 0 then
           (case mem_read (block ref) 0 (unat sizeof_SkPoint) of
              None \<Rightarrow> None
            | Some p \<Rightarrow> Some (setEmpty, SkPoint_isFinite X p))
         else Some (setEmpty, True))
      else
        (case mem_read (block ref) 0 (unat (scast count * sizeof_SkPoint)) of
           None \<Rightarrow> None
         | Some ps \<Rightarrow> Some (setBoundsCheck X ps)))"

text \<open>Lines 404 to 410.\<close>

definition computeBounds :: "collaborators \<Rightarrow> SkPathRef \<Rightarrow> SkPathRef option" where
  "computeBounds X s =
     (case ComputePtBounds X s of
        None \<Rightarrow> None
      | Some (bounds, fin) \<Rightarrow>
          Some (s\<lparr>fBounds := Some bounds, fIsFinite := Some fin, fBoundsIsDirty := False\<rparr>))"

text \<open>
  Lines 134 to 139 and 150 to 155. Both are \<^verbatim>\<open>const\<close> and write the cache only; they
  return their value with the storage. Returning an indeterminate member has no result.
\<close>

definition isFinite :: "collaborators \<Rightarrow> SkPathRef \<Rightarrow> (bool \<times> SkPathRef) option" where
  "isFinite X s =
     (case (if fBoundsIsDirty s then computeBounds X s else Some s) of
        None \<Rightarrow> None
      | Some s1 \<Rightarrow> (case fIsFinite s1 of None \<Rightarrow> None | Some f \<Rightarrow> Some (f, s1)))"

definition getBounds :: "collaborators \<Rightarrow> SkPathRef \<Rightarrow> (SkRect \<times> SkPathRef) option" where
  "getBounds X s =
     (case (if fBoundsIsDirty s then computeBounds X s else Some s) of
        None \<Rightarrow> None
      | Some s1 \<Rightarrow> (case fBounds s1 of None \<Rightarrow> None | Some r \<Rightarrow> Some (r, s1)))"

text \<open>Lines 157 to 162.\<close>

definition setBounds :: "collaborators \<Rightarrow> SkPathRef \<Rightarrow> SkRect \<Rightarrow> SkPathRef" where
  "setBounds X s rect =
     s\<lparr>fBounds := Some rect, fBoundsIsDirty := False, fIsFinite := Some (SkRect_isFinite X rect)\<rparr>"

section \<open>The generation ID\<close>

text \<open>
  Lines 541 to 543: the loop of \<^verbatim>\<open>genID\<close>, on the process-wide counter.
  \<^verbatim>\<open>sk_atomic_inc\<close> returns the counter and adds one to it; the ID tried is that value
  plus one, so the ID and the new counter are the same number. The test is a signed one
  on \<^verbatim>\<open>int32_t\<close>. The result is the ID and the counter after the loop.
\<close>

function genID_loop :: "int32 \<Rightarrow> int32 \<times> int32" where
  "genID_loop g =
     (let fGenerationID' = g + 1;
          g' = g + 1
      in if fGenerationID' \<le>s kEmptyGenID then genID_loop g' else (fGenerationID', g'))"
  by pat_completeness auto

termination genID_loop
proof (relation "measure (\<lambda>g. unat (1 - g))")
  show "wf (measure (\<lambda>g::int32. unat (1 - g)))" by simp
next
  fix g fGenerationID' g' :: int32
  assume e: "fGenerationID' = g + 1" "g' = g + 1" and le: "fGenerationID' \<le>s kEmptyGenID"
  have "g \<noteq> 1"
  proof
    assume "g = 1"
    with e le show False by (simp add: kEmptyGenID_def word_sle_eq)
  qed
  then have nz: "1 - g \<noteq> 0" by simp
  then have "unat (1 - g - 1) = unat (1 - g) - 1" by (rule unat_minus_one)
  moreover have "0 < unat (1 - g)" using nz by (simp add: unat_gt_0)
  moreover have "1 - g' = 1 - g - 1" using e by simp
  ultimately have "unat (1 - g') < unat (1 - g)" by simp
  then show "(g', g) \<in> measure (\<lambda>g. unat (1 - g))" by simp
qed

declare genID_loop.simps [simp del]

text \<open>
  Lines 532 to 547: \<^verbatim>\<open>genID\<close>, on a storage and the counter. It is \<^verbatim>\<open>const\<close> and
  writes the mutable \<^verbatim>\<open>fGenerationID\<close>: the result is the ID, the storage and the counter.
\<close>

definition genID :: "SkPathRef \<Rightarrow> int32 \<Rightarrow> int32 \<times> SkPathRef \<times> int32" where
  "genID s g =
     (if fGenerationID s = 0 then
        (if 0 = fPointCnt s \<and> 0 = fVerbCnt s
         then (kEmptyGenID, s\<lparr>fGenerationID := kEmptyGenID\<rparr>, g)
         else (case genID_loop g of (i, g') \<Rightarrow> (i, s\<lparr>fGenerationID := i\<rparr>, g')))
      else (fGenerationID s, s, g))"

section \<open>Handles, sharing and the editor\<close>

text \<open>
  The objects of the program live in a heap, a list indexed by address; \<open>None\<close> is an
  object that was destroyed. A handle (\<^verbatim>\<open>SkAutoTUnref<SkPathRef>\<close>) is the address it
  holds. The world is the heap and the two static variables of the header,
  \<^verbatim>\<open>gPathRefGenerationID\<close> (line 538) and \<^verbatim>\<open>gEmptyPathRef\<close> (line 123).
\<close>

record world =
  heap :: "SkPathRef option list"
  gPathRefGenerationID :: int32
  gEmptyPathRef :: "nat option"

definition deref :: "world \<Rightarrow> nat \<Rightarrow> SkPathRef option" where
  "deref w p = (if p < length (heap w) then heap w ! p else None)"

definition store :: "world \<Rightarrow> nat \<Rightarrow> SkPathRef \<Rightarrow> world" where
  "store w p obj = w\<lparr>heap := (heap w)[p := Some obj]\<rparr>"

text \<open>\<^verbatim>\<open>SkNEW(SkPathRef)\<close>: a new object at an address no object has had.\<close>

definition SkNEW :: "world \<Rightarrow> nat \<times> world" where
  "SkNEW w = (length (heap w), w\<lparr>heap := heap w @ [Some SkPathRef_ctor]\<rparr>)"

text \<open>
  Modelled from the spec: the reference count of \<^verbatim>\<open>SkRefCnt\<close> (\<^verbatim>\<open>SkRefCnt.h\<close> is not
  among the sources). A storage "is reference-counted" and is "destroyed when the last
  reference drops" (section 3); it is uniquely owned when the count is 1.
\<close>

definition unique :: "SkPathRef \<Rightarrow> bool" where
  "unique obj \<longleftrightarrow> fRefCnt obj = 1"

definition ref :: "world \<Rightarrow> nat \<Rightarrow> world" where
  "ref w p =
     (case deref w p of
        None \<Rightarrow> w
      | Some obj \<Rightarrow> store w p (obj\<lparr>fRefCnt := fRefCnt obj + 1\<rparr>))"

definition unref :: "world \<Rightarrow> nat \<Rightarrow> world" where
  "unref w p =
     (case deref w p of
        None \<Rightarrow> w
      | Some obj \<Rightarrow>
          if fRefCnt obj = 1 then w\<lparr>heap := (heap w)[p := None]\<rparr>
          else store w p (obj\<lparr>fRefCnt := fRefCnt obj - 1\<rparr>))"

text \<open>
  Lines 45 to 59: the constructor of \<^verbatim>\<open>Editor\<close>. \<open>pathRef\<close> is the address the handle
  holds; the result is the world and the address the handle holds afterwards, which is
  also \<^verbatim>\<open>fPathRef\<close> of the editor. \<^verbatim>\<open>pathRef->reset(copy)\<close> drops the handle's reference
  to the old storage. A handle that holds no live object has no result.
\<close>

definition Editor_ctor :: "world \<Rightarrow> nat \<Rightarrow> int32 \<Rightarrow> int32 \<Rightarrow> (world \<times> nat) option" where
  "Editor_ctor w pathRef incReserveVerbs incReservePoints =
     (case deref w pathRef of
        None \<Rightarrow> None
      | Some obj \<Rightarrow>
          (case (if unique obj then
                   (case incReserve obj incReserveVerbs incReservePoints of
                      None \<Rightarrow> None
                    | Some obj1 \<Rightarrow> Some (store w pathRef obj1, pathRef))
                 else
                   (case SkNEW w of
                      (copyp, w1) \<Rightarrow>
                        (case copy SkPathRef_ctor obj incReserveVerbs incReservePoints of
                           None \<Rightarrow> None
                         | Some c \<Rightarrow> Some (unref (store w1 copyp c) pathRef, copyp)))) of
             None \<Rightarrow> None
           | Some (w2, fPathRef) \<Rightarrow>
               (case deref w2 fPathRef of
                  None \<Rightarrow> None
                | Some e \<Rightarrow>
                    Some (store w2 fPathRef
                            (e\<lparr>fGenerationID := 0,
                               fEditorsAttached := fEditorsAttached e + 1\<rparr>),
                          fPathRef))))"


text \<open>
  Lines 89 to 100: \<^verbatim>\<open>Editor::grow\<close>. The two pointers it returns are given by their
  offsets from \<^verbatim>\<open>fPoints\<close>: \<^verbatim>\<open>fVerbs - oldVerbCnt\<close> and \<^verbatim>\<open>fPoints + oldPointCnt\<close>.
\<close>

definition Editor_grow ::
  "world \<Rightarrow> nat \<Rightarrow> int32 \<Rightarrow> int32 \<Rightarrow> (world \<times> size_t \<times> size_t) option" where
  "Editor_grow w fPathRef newVerbs newPts =
     (case deref w fPathRef of
        None \<Rightarrow> None
      | Some e \<Rightarrow>
          (let oldVerbCnt = fVerbCnt e;
               oldPointCnt = fPointCnt e
           in case grow e newVerbs newPts of
                None \<Rightarrow> None
              | Some e1 \<Rightarrow>
                  Some (store w fPathRef e1,
                        currSize e1 - scast oldVerbCnt,
                        sizeof_SkPoint * scast oldPointCnt)))"

text \<open>Lines 106 to 108: \<^verbatim>\<open>Editor::resetToSize\<close>; the two reserves take their default, 0.\<close>

definition Editor_resetToSize ::
  "world \<Rightarrow> nat \<Rightarrow> int32 \<Rightarrow> int32 \<Rightarrow> int32 \<Rightarrow> world option" where
  "Editor_resetToSize w fPathRef newVerbCnt newPointCnt newConicCount =
     (case deref w fPathRef of
        None \<Rightarrow> None
      | Some e \<Rightarrow>
          (case resetToSize e newVerbCnt newPointCnt newConicCount 0 0 of
             None \<Rightarrow> None
           | Some e1 \<Rightarrow> Some (store w fPathRef e1)))"

text \<open>
  Lines 122 to 128: \<^verbatim>\<open>CreateEmpty\<close>. The static pointer keeps the reference the object
  was created with; \<^verbatim>\<open>SkRef\<close> adds the caller's.
\<close>

definition CreateEmpty :: "world \<Rightarrow> world \<times> nat" where
  "CreateEmpty w =
     (case gEmptyPathRef w of
        None \<Rightarrow> (case SkNEW w of (p, w1) \<Rightarrow> (ref (w1\<lparr>gEmptyPathRef := Some p\<rparr>) p, p))
      | Some p \<Rightarrow> (ref w p, p))"

text \<open>
  Lines 232 to 248: \<^verbatim>\<open>Rewind\<close>. \<^verbatim>\<open>fConicWeights.rewind()\<close> sets the count to 0.
\<close>

definition Rewind :: "world \<Rightarrow> nat \<Rightarrow> (world \<times> nat) option" where
  "Rewind w pathRef =
     (case deref w pathRef of
        None \<Rightarrow> None
      | Some obj \<Rightarrow>
          if unique obj then
            Some (store w pathRef
                    (obj\<lparr>fBoundsIsDirty := True, fVerbCnt := 0, fPointCnt := 0,
                         fFreeSpace := currSize obj, fGenerationID := 0,
                         fConicWeights := []\<rparr>),
                  pathRef)
          else
            (let oldVCnt = fVerbCnt obj;
                 oldPCnt = fPointCnt obj
             in case SkNEW w of
                  (p, w1) \<Rightarrow>
                    (case resetToSize SkPathRef_ctor 0 0 0 oldVCnt oldPCnt of
                       None \<Rightarrow> None
                     | Some n \<Rightarrow> Some (store (unref w1 pathRef) p n, p))))"

text \<open>
  Lines 301 to 339: \<^verbatim>\<open>operator==\<close>, on the addresses of \<open>this\<close> and \<open>ref\<close> (they may be
  the same object). \<open>SK_RELEASE\<close> says whether the macro is defined. \<^verbatim>\<open>memcmp\<close> reads
  \<^verbatim>\<open>ref.fVerbCnt\<close> bytes from \<^verbatim>\<open>verbsMemBegin()\<close> of each, then
  \<^verbatim>\<open>ref.fPointCnt * sizeof(SkPoint)\<close> bytes from \<^verbatim>\<open>fPoints\<close> of each. In a build
  without \<open>SK_RELEASE\<close>, \<^verbatim>\<open>SkASSERT(!genIDMatch)\<close> aborts when it fails: no result.
  The result is the truth value and the world, in which an ID may have been assigned.
\<close>

definition memcmp_differs :: "cell list \<Rightarrow> nat \<Rightarrow> cell list \<Rightarrow> nat \<Rightarrow> nat \<Rightarrow> bool option" where
  "memcmp_differs m1 off1 m2 off2 n =
     (case mem_read m1 off1 n of
        None \<Rightarrow> None
      | Some b1 \<Rightarrow>
          (case mem_read m2 off2 n of
             None \<Rightarrow> None
           | Some b2 \<Rightarrow> Some (b1 \<noteq> b2)))"

definition genID_at :: "world \<Rightarrow> nat \<Rightarrow> (int32 \<times> world) option" where
  "genID_at w p =
     (case deref w p of
        None \<Rightarrow> None
      | Some obj \<Rightarrow>
          (case genID obj (gPathRefGenerationID w) of
             (i, obj1, g1) \<Rightarrow> Some (i, (store w p obj1)\<lparr>gPathRefGenerationID := g1\<rparr>)))"

definition set_genID :: "world \<Rightarrow> nat \<Rightarrow> int32 \<Rightarrow> world option" where
  "set_genID w p i =
     (case deref w p of
        None \<Rightarrow> None
      | Some obj \<Rightarrow> Some (store w p (obj\<lparr>fGenerationID := i\<rparr>)))"

definition assert_not :: "bool \<Rightarrow> bool \<Rightarrow> 'a option \<Rightarrow> 'a option" where
  "assert_not SK_RELEASE genIDMatch r = (if \<not> SK_RELEASE \<and> genIDMatch then None else r)"

definition operator_eq :: "bool \<Rightarrow> world \<Rightarrow> nat \<Rightarrow> nat \<Rightarrow> (bool \<times> world) option" where
  "operator_eq SK_RELEASE w this ref' =
     (case deref w this of
        None \<Rightarrow> None
      | Some a \<Rightarrow>
          (case deref w ref' of
             None \<Rightarrow> None
           | Some b \<Rightarrow>
               (let genIDMatch = (fGenerationID a \<noteq> 0 \<and> fGenerationID a = fGenerationID b) in
                if SK_RELEASE \<and> genIDMatch then Some (True, w)
                else if fPointCnt a \<noteq> fPointCnt b \<or> fVerbCnt a \<noteq> fVerbCnt b
                  then assert_not SK_RELEASE genIDMatch (Some (False, w))
                else
                  (case memcmp_differs (block a) (verbsMemBegin a) (block b) (verbsMemBegin b)
                          (unat (scast (fVerbCnt b) * sizeof_uint8)) of
                     None \<Rightarrow> None
                   | Some True \<Rightarrow> assert_not SK_RELEASE genIDMatch (Some (False, w))
                   | Some False \<Rightarrow>
                       (case memcmp_differs (block a) 0 (block b) 0
                               (unat (scast (fPointCnt b) * sizeof_SkPoint)) of
                          None \<Rightarrow> None
                        | Some True \<Rightarrow> assert_not SK_RELEASE genIDMatch (Some (False, w))
                        | Some False \<Rightarrow>
                            if fConicWeights a \<noteq> fConicWeights b
                              then assert_not SK_RELEASE genIDMatch (Some (False, w))
                            else if 0 = fGenerationID a then
                              (case genID_at w ref' of
                                 None \<Rightarrow> None
                               | Some (i, w1) \<Rightarrow>
                                   (case set_genID w1 this i of
                                      None \<Rightarrow> None
                                    | Some w2 \<Rightarrow> Some (True, w2)))
                            else if 0 = fGenerationID b then
                              (case genID_at w this of
                                 None \<Rightarrow> None
                               | Some (i, w1) \<Rightarrow>
                                   (case set_genID w1 ref' i of
                                      None \<Rightarrow> None
                                    | Some w2 \<Rightarrow> Some (True, w2)))
                            else Some (True, w))))))"

section \<open>The transformed copy\<close>

text \<open>
  The methods of \<^verbatim>\<open>SkMatrix\<close> the header calls (\<^verbatim>\<open>SkMatrix.h\<close> is not among the
  sources), as properties of a matrix. \<open>mapPoints\<close> maps the bytes of a run of points
  to the bytes of the mapped points.
\<close>

record SkMatrix =
  isIdentity :: bool
  rectStaysRect :: bool
  mapPoints :: "cell list \<Rightarrow> cell list"
  mapRect :: "SkRect \<Rightarrow> SkRect"

text \<open>
  Lines 180 to 186 of \<^verbatim>\<open>CreateTransformedCopy\<close>: a destination that is not uniquely
  owned is replaced by a new storage, sized for the source, with its verbs and weights.
  The result is the world and the address \<open>dst\<close> holds.
\<close>

definition fresh_dst :: "world \<Rightarrow> nat \<Rightarrow> nat \<Rightarrow> (world \<times> nat) option" where
  "fresh_dst w dst src =
     (case SkNEW w of
        (p, w1) \<Rightarrow>
          (let w2 = unref w1 dst in
           case deref w2 src of
             None \<Rightarrow> None
           | Some s \<Rightarrow>
               (case resetToSize SkPathRef_ctor (fVerbCnt s) (fPointCnt s)
                       (of_nat (length (fConicWeights s))) 0 0 of
                  None \<Rightarrow> None
                | Some d \<Rightarrow>
                    (case mem_read (block s) (verbsMemBegin s)
                            (unat (scast (fVerbCnt s) * sizeof_uint8)) of
                       None \<Rightarrow> None
                     | Some vs \<Rightarrow>
                         (case mem_write (block d) (verbsMemBegin d) vs of
                            None \<Rightarrow> None
                          | Some m \<Rightarrow>
                              Some (store w2 p ((set_block d m)
                                                  \<lparr>fConicWeights := fConicWeights s\<rparr>),
                                    p))))))"

text \<open>
  Line 191: \<^verbatim>\<open>matrix.mapPoints((*dst)->fPoints, src.points(), src.fPointCnt)\<close>. The
  points of \<open>src\<close> are read, mapped and written from \<^verbatim>\<open>fPoints\<close> of \<open>dst\<close> on.
\<close>

definition transform_points :: "world \<Rightarrow> nat \<Rightarrow> nat \<Rightarrow> SkMatrix \<Rightarrow> world option" where
  "transform_points w dst src matrix =
     (case deref w src of
        None \<Rightarrow> None
      | Some s \<Rightarrow>
          (case mem_read (block s) 0 (unat (scast (fPointCnt s) * sizeof_SkPoint)) of
             None \<Rightarrow> None
           | Some ps \<Rightarrow>
               (case deref w dst of
                  None \<Rightarrow> None
                | Some d \<Rightarrow>
                    (case mem_write (block d) 0 (mapPoints matrix ps) of
                       None \<Rightarrow> None
                     | Some m \<Rightarrow> Some (store w dst (set_block d m))))))"

text \<open>
  Lines 203 to 216: the bounds of \<open>dst\<close>. \<open>src\<close> is read after \<^verbatim>\<open>fBoundsIsDirty\<close> of
  \<open>dst\<close> is cleared, as in the source. Reading an indeterminate \<^verbatim>\<open>fIsFinite\<close> or
  \<^verbatim>\<open>fBounds\<close> has no result.
\<close>

definition transform_bounds ::
  "collaborators \<Rightarrow> world \<Rightarrow> nat \<Rightarrow> nat \<Rightarrow> SkMatrix \<Rightarrow> bool \<Rightarrow> world option" where
  "transform_bounds X w dst src matrix canXformBounds =
     (case deref w dst of
        None \<Rightarrow> None
      | Some d \<Rightarrow>
          if canXformBounds then
            (let d1 = d\<lparr>fBoundsIsDirty := False\<rparr>;
                 w1 = store w dst d1
             in case deref w1 src of
                  None \<Rightarrow> None
                | Some s \<Rightarrow>
                    (case fIsFinite s of
                       None \<Rightarrow> None
                     | Some True \<Rightarrow>
                         (case fBounds s of
                            None \<Rightarrow> None
                          | Some b \<Rightarrow>
                              (let r = mapRect matrix b in
                               if SkRect_isFinite X r
                               then Some (store w1 dst (d1\<lparr>fBounds := Some r,
                                                         fIsFinite := Some True\<rparr>))
                               else Some (store w1 dst (d1\<lparr>fIsFinite := Some False,
                                                         fBounds := Some setEmpty\<rparr>))))
                     | Some False \<Rightarrow>
                         Some (store w1 dst (d1\<lparr>fIsFinite := Some False,
                                                fBounds := Some setEmpty\<rparr>))))
          else Some (store w dst (d\<lparr>fBoundsIsDirty := True\<rparr>)))"

text \<open>
  Lines 167 to 219. The result is the world and the address \<open>dst\<close> holds afterwards.
  \<^verbatim>\<open>canXformBounds\<close> is computed before the points are mapped (line 189).
\<close>

definition CreateTransformedCopy ::
  "collaborators \<Rightarrow> world \<Rightarrow> nat \<Rightarrow> nat \<Rightarrow> SkMatrix \<Rightarrow> (world \<times> nat) option" where
  "CreateTransformedCopy X w dst src matrix =
     (if isIdentity matrix then
        (if dst \<noteq> src then Some (unref (ref w src) dst, src) else Some (w, dst))
      else
        (case deref w dst of
           None \<Rightarrow> None
         | Some d0 \<Rightarrow>
             (let dstUnique = unique d0 in
              case (if \<not> dstUnique then fresh_dst w dst src else Some (w, dst)) of
                None \<Rightarrow> None
              | Some (w1, dst1) \<Rightarrow>
                  (case deref w1 src of
                     None \<Rightarrow> None
                   | Some s \<Rightarrow>
                       (let canXformBounds =
                              (\<not> fBoundsIsDirty s \<and> rectStaysRect matrix \<and> 1 <s fPointCnt s)
                        in case transform_points w1 dst1 src matrix of
                             None \<Rightarrow> None
                           | Some w2 \<Rightarrow>
                               (case transform_bounds X w2 dst1 src matrix canXformBounds of
                                  None \<Rightarrow> None
                                | Some w3 \<Rightarrow> Some (w3, dst1)))))))"

section \<open>The words of the specification, and sample storages\<close>

text \<open>
  The growth rule of \<^verbatim>\<open>makeSpace\<close> in the words of the specification (section 4.1):
  "compute a growth amount \<open>g = n - freeSpace\<close>, round up to a multiple of 8, clamp up to
  at least \<open>currSize()\<close>, and at least \<open>kMinSize = 256\<close> bytes", on natural numbers.
\<close>

definition round_up8 :: "nat \<Rightarrow> nat" where
  "round_up8 k = (k + 7) div 8 * 8"

definition spec_growth :: "nat \<Rightarrow> nat \<Rightarrow> nat \<Rightarrow> nat" where
  "spec_growth n free cur = max (max (round_up8 (n - free)) cur) 256"

text \<open>
  A storage of 256 bytes with no verbs and no points: what \<^verbatim>\<open>makeSpace(1)\<close> makes of a
  new storage.
\<close>

definition storage256 :: SkPathRef where
  "storage256 = SkPathRef_ctor\<lparr>fPoints := Some (replicate 256 None), fFreeSpace := 256\<rparr>"

text \<open>
  A storage of 256 bytes with one point, whose bytes are 1 to 8, and two verbs, 1 and 0 in
  memory order; its generation ID is unassigned.
\<close>

definition sample_path :: SkPathRef where
  "sample_path =
     SkPathRef_ctor
       \<lparr>fPoints := Some (map Some [1, 2, 3, 4, 5, 6, 7, 8] @ replicate 246 None
                         @ [Some 1, Some 0]),
        fVerbCnt := 2, fPointCnt := 1, fFreeSpace := 246, fGenerationID := 0\<rparr>"

text \<open>The world before any storage exists.\<close>

definition world0 :: world where
  "world0 = \<lparr>heap = [], gPathRefGenerationID = 0, gEmptyPathRef = None\<rparr>"

text \<open>
  The storage after lines 425, 426 and 435 to 440 of \<^verbatim>\<open>resetToSize\<close>: the block freed,
  counts and free space zeroed.
\<close>

definition cleared :: "SkPathRef \<Rightarrow> SkPathRef" where
  "cleared s = s\<lparr>fBoundsIsDirty := True, fGenerationID := 0, fPoints := None, fFreeSpace := 0,
                fVerbCnt := 0, fPointCnt := 0\<rparr>"

text \<open>
  A sample instance of the collaborators, for the closed instances of the theorems: a
  scalar is an IEEE single, stored little-endian, and is finite when its exponent bits are
  not all ones. The sample \<^verbatim>\<open>setBoundsCheck\<close> reports the empty rectangle and whether
  every byte it was given is determinate.
\<close>

definition scalar_finite :: "cell list \<Rightarrow> bool" where
  "scalar_finite bs =
     (case bs of
        [Some b0, Some b1, Some b2, Some b3] \<Rightarrow> \<not> (b3 AND 127 = 127 \<and> b2 AND 128 = 128)
      | _ \<Rightarrow> False)"

definition word_finite :: "SkScalar \<Rightarrow> bool" where
  "word_finite x \<longleftrightarrow> x AND 0x7F800000 \<noteq> 0x7F800000"

definition sample_collaborators :: collaborators where
  "sample_collaborators =
     \<lparr> SkPoint_isFinite = (\<lambda>p. scalar_finite (take 4 p) \<and> scalar_finite (drop 4 p)),
       SkRect_isFinite = (\<lambda>r. word_finite (fLeft r) \<and> word_finite (fTop r) \<and>
                               word_finite (fRight r) \<and> word_finite (fBottom r)),
       setBoundsCheck = (\<lambda>ps. (setEmpty, None \<notin> set ps)) \<rparr>"

text \<open>
  A world in which two handles share one storage: the sample path with a reference count
  of 2 and the generation ID 7, at address 0.
\<close>

definition shared_path :: SkPathRef where
  "shared_path = sample_path\<lparr>fRefCnt := 2, fGenerationID := 7\<rparr>"

definition shared_world :: world where
  "shared_world = \<lparr>heap = [Some shared_path], gPathRefGenerationID = 7, gEmptyPathRef = None\<rparr>"

text \<open>
  A sample matrix, the point reflection (scale by -1): it is not the identity and it
  preserves rectangles. Negating an IEEE single flips its sign bit, the top bit of the
  fourth byte of a little-endian scalar.
\<close>

fun negate_scalars :: "cell list \<Rightarrow> cell list" where
  "negate_scalars (a # b # c # d # rest) =
     a # b # c # map_option (\<lambda>x. x XOR 128) d # negate_scalars rest"
| "negate_scalars xs = xs"

definition negate_scalar :: "SkScalar \<Rightarrow> SkScalar" where
  "negate_scalar x = x XOR 0x80000000"

definition reflection :: SkMatrix where
  "reflection =
     \<lparr> isIdentity = False, rectStaysRect = True, mapPoints = negate_scalars,
       mapRect = (\<lambda>r. \<lparr>fLeft = negate_scalar (fRight r), fTop = negate_scalar (fBottom r),
                        fRight = negate_scalar (fLeft r), fBottom = negate_scalar (fTop r)\<rparr>) \<rparr>"

text \<open>
  A uniquely owned storage of 256 bytes with the two points (1, 2) and (3, 4), the verbs
  move and line (1 and 0 in memory order) and computed bounds, alone in a world at address 0.
\<close>

definition segment_path :: SkPathRef where
  "segment_path =
     SkPathRef_ctor
       \<lparr>fBounds := Some \<lparr>fLeft = 0x3F800000, fTop = 0x40000000,
                         fRight = 0x40400000, fBottom = 0x40800000\<rparr>,
        fBoundsIsDirty := False, fIsFinite := Some True,
        fPoints := Some (map Some [0, 0, 0x80, 0x3F, 0, 0, 0, 0x40,
                                   0, 0, 0x40, 0x40, 0, 0, 0x80, 0x40]
                         @ replicate 238 None @ [Some 1, Some 0]),
        fVerbCnt := 2, fPointCnt := 2, fFreeSpace := 238, fGenerationID := 0\<rparr>"

definition segment_world :: world where
  "segment_world = \<lparr>heap = [Some segment_path], gPathRefGenerationID = 0, gEmptyPathRef = None\<rparr>"

text \<open>The segment after the reflection of its points.\<close>

definition reflected :: SkPathRef where
  "reflected = set_block segment_path
     (map Some [0, 0, 0x80, 0xBF, 0, 0, 0, 0xC0, 0, 0, 0x40, 0xC0, 0, 0, 0x80, 0xC0]
             @ replicate 238 None @ [Some 1, Some 0])"



definition no_room_world :: world where
  "no_room_world = \<lparr>heap = [Some segment_path, Some SkPathRef_ctor],
                     gPathRefGenerationID = 0, gEmptyPathRef = None\<rparr>"

text \<open>
  A world for the comparison: two uniquely owned storages that hold the same segment, at
  the addresses 0 and 1, neither with a generation ID yet.
\<close>

definition twin_world :: world where
  "twin_world = \<lparr>heap = [Some segment_path, Some segment_path],
                  gPathRefGenerationID = 0, gEmptyPathRef = None\<rparr>"

text \<open>
  The two storages after a comparison has given both the generation ID 2, and the storage
  at address 0 after the reflection of its points in place.
\<close>

definition stamped :: SkPathRef where
  "stamped = segment_path\<lparr>fGenerationID := 2\<rparr>"

definition stamped_world :: world where
  "stamped_world = \<lparr>heap = [Some stamped, Some stamped],
                     gPathRefGenerationID = 2, gEmptyPathRef = None\<rparr>"

definition turned :: SkPathRef where
  "turned = reflected
     \<lparr>fBounds := Some \<lparr>fLeft = 0xC0400000, fTop = 0xC0800000,
                       fRight = 0xBF800000, fBottom = 0xC0000000\<rparr>,
      fGenerationID := 2\<rparr>"

definition turned_world :: world where
  "turned_world = \<lparr>heap = [Some turned, Some stamped],
                    gPathRefGenerationID = 2, gEmptyPathRef = None\<rparr>"






section \<open>Arithmetic of machine words\<close>

text \<open>
  How the signed and unsigned readings of a word, the sign extension of a count and the
  rounding mask of \<^verbatim>\<open>makeSpace\<close> relate to natural numbers.
\<close>

lemma unat_lt_iff_uint: "(unat (x::'a::len word) < 2^k) = (uint x < 2^k)"
proof -
  have "(unat x < 2^k) = (int (unat x) < int (2^k))" by (simp only: of_nat_less_iff)
  also have "int (unat x) = uint x" by (simp only: uint_nat)
  also have "int (2^k) = 2^k" by simp
  finally show ?thesis .
qed

lemma sint_eq_unat:
  assumes "unat (x::'a::len word) < 2^(LENGTH('a) - Suc 0)"
  shows "sint x = int (unat x)"
proof -
  have u: "uint x < 2^(LENGTH('a) - Suc 0)" using assms by (simp only: unat_lt_iff_uint)
  have "- (2^(LENGTH('a) - Suc 0)) \<le> (0::int)" by simp
  also have "0 \<le> uint x" by simp
  finally have "signed_take_bit (LENGTH('a) - Suc 0) (uint x) = uint x"
    using u by (rule signed_take_bit_int_eq_self)
  then have "sint x = uint x" by (simp only: sint_uint)
  then show ?thesis by (simp only: uint_nat)
qed

lemma sle0_iff_unat: "(0 \<le>s (x::'a::len word)) = (unat x < 2^(LENGTH('a) - Suc 0))"
proof
  assume "0 \<le>s x"
  then have p: "0 \<le> sint x" by (simp add: word_sle_eq)
  have q: "sint x < 2^(LENGTH('a) - Suc 0)" using sint_lt [of x] by simp
  also have "\<dots> \<le> 2^LENGTH('a)" by (rule power_increasing) simp_all
  finally have "take_bit LENGTH('a) (sint x) = sint x" using p by (simp add: take_bit_int_eq_self)
  then have "uint x = sint x" using uint_sint [of x] by simp
  with q have "uint x < 2^(LENGTH('a) - Suc 0)" by simp
  then show "unat x < 2^(LENGTH('a) - Suc 0)" by (simp only: unat_lt_iff_uint)
next
  assume "unat x < 2^(LENGTH('a) - Suc 0)"
  then have "sint x = int (unat x)" by (rule sint_eq_unat)
  then show "0 \<le>s x" by (simp add: word_sle_eq)
qed

lemma and_not_mask_diff: "(x::'a::len word) AND NOT (mask n) = x - (x AND mask n)"
proof -
  have "x - (x AND mask n) = x AND NOT (x AND mask n)"
    by (rule disjunctive_diff) (simp add: bit_and_iff)
  also have "\<dots> = x AND NOT (mask n)"
    by (rule bit_eqI) (auto simp: bit_and_iff bit_not_iff bit_or_iff)
  finally show ?thesis by simp
qed

lemma unat_and_mask: "unat ((x::'a::len word) AND mask n) = unat x mod 2^n"
proof -
  have "unat (x AND mask n) = unat (take_bit n x)" by (simp only: take_bit_eq_mask)
  also have "\<dots> = take_bit n (unat x)" by (simp only: unsigned_take_bit_eq)
  also have "\<dots> = unat x mod 2^n" by (simp only: take_bit_eq_mod)
  finally show ?thesis .
qed

lemma unat_of_nat_small: "n < 2^LENGTH('a) \<Longrightarrow> unat (of_nat n :: 'a::len word) = n"
  by (simp only: unat_of_nat mod_less)

lemma sle0_unat: "(0 \<le>s (x::64 word)) = (unat x < 2^63)"
  using sle0_iff_unat [of x] by simp

lemma sle0_unat32: "(0 \<le>s (x::32 word)) = (unat x < 2^31)"
  using sle0_iff_unat [of x] by simp

lemma sint_unat64: "unat (x::64 word) < 2^63 \<Longrightarrow> sint x = int (unat x)"
  using sint_eq_unat [of x] by simp

lemma sint_unat32: "unat (x::32 word) < 2^31 \<Longrightarrow> sint x = int (unat x)"
  using sint_eq_unat [of x] by simp

lemma unat_scast_nonneg:
  assumes "0 \<le>s (x::32 word)"
  shows "unat (scast x :: 64 word) = unat x"
proof -
  have u: "unat x < 2^31" using assms by (simp only: sle0_unat32)
  then have s: "sint x = int (unat x)" by (rule sint_unat32)
  have "(scast x :: 64 word) = word_of_int (sint x)" by (rule scast_eq)
  also have "\<dots> = word_of_int (int (unat x))" by (simp only: s)
  also have "\<dots> = of_nat (unat x)" by simp
  finally have e: "(scast x :: 64 word) = of_nat (unat x)" .
  have "(2::nat)^31 \<le> 2^LENGTH(64)" by (rule power_increasing) simp_all
  with u have "unat x < 2^LENGTH(64)" by (rule less_le_trans)
  then have "unat (of_nat (unat x) :: 64 word) = unat x" by (rule unat_of_nat_small)
  then show ?thesis by (simp only: e)
qed

lemma round8:
  assumes "unat (d::64 word) \<le> 2^63 - 8"
  shows "unat ((d + 7) AND NOT 7) = ((unat d + 7) div 8) * 8"
proof -
  have m: "(7::64 word) = mask 3" by (simp add: mask_eq_exp_minus_1)
  have a: "unat (d + 7) = unat d + 7" using assms by (simp add: unat_word_ariths)
  have "(d + 7) AND mask 3 \<le> d + 7" by (rule word_and_le2)
  then have "unat ((d + 7) - ((d + 7) AND mask 3)) = unat (d + 7) - unat ((d + 7) AND mask 3)"
    by (rule unat_sub)
  then have "unat ((d + 7) AND NOT (mask 3)) = (unat d + 7) - (unat d + 7) mod 2^3"
    by (simp only: and_not_mask_diff unat_and_mask a)
  then have "unat ((d + 7) AND NOT 7) = (unat d + 7) - (unat d + 7) mod 8"
    by (simp only: m) simp
  then show ?thesis by (simp only: minus_mod_eq_div_mult)
qed

lemma sless_unat:
  assumes "unat (x::64 word) < 2^63" "unat (y::64 word) < 2^63"
  shows "(x <s y) = (unat x < unat y)" and "(x \<le>s y) = (unat x \<le> unat y)"
  by (simp_all only: word_sless_alt word_sle_eq sint_unat64 [OF assms(1)]
      sint_unat64 [OF assms(2)] of_nat_less_iff of_nat_le_iff)



lemma sint_diff64:
  assumes "unat (a::64 word) < 2^63" "unat (b::64 word) < 2^63"
  shows "sint (a - b) = uint a - uint b"
proof -
  have ua: "uint a < 2^63" "uint b < 2^63" using assms by (simp_all only: unat_lt_iff_uint)
  have lo: "- (2^63) \<le> uint a - uint b" using ua uint_ge_0 [of a] by linarith
  have hi: "uint a - uint b < 2^63" using ua uint_ge_0 [of b] by linarith
  have "sint (a - b) = signed_take_bit 63 (sint a - sint b)"
    using sint_word_ariths(2) [of a b] by simp
  also have "\<dots> = signed_take_bit 63 (uint a - uint b)"
    by (simp only: sint_unat64 [OF assms(1)] sint_unat64 [OF assms(2)] uint_nat)
  also have "\<dots> = uint a - uint b"
    using lo hi by (rule signed_take_bit_int_eq_self)
  finally show ?thesis .
qed

lemma currSize_unat: "length (block s) < 2^64 \<Longrightarrow> unat (currSize s) = length (block s)"
  by (cases "fPoints s") (simp_all add: currSize_def block_def unat_of_nat)

lemma wf_bounds:
  assumes "well_formed s"
  shows "unat (fFreeSpace s) < 2^63" "length (block s) < 2^63"
    "unat (fVerbCnt s) < 2^31" "unat (fPointCnt s) < 2^31"
    "unat (currSize s) = length (block s)"
proof -
  from assms have v: "validate s" and l: "length (block s) < 2^64"
    and c: "0 \<le>s fVerbCnt s" "0 \<le>s fPointCnt s"
    by (simp_all add: well_formed_def)
  show "unat (currSize s) = length (block s)" using l by (rule currSize_unat)
  moreover from v have "0 \<le>s currSize s" by (simp add: validate_def)
  ultimately show "length (block s) < 2^63" by (simp add: sle0_unat)
  from v show "unat (fFreeSpace s) < 2^63" by (simp add: validate_def sle0_unat)
  from c show "unat (fVerbCnt s) < 2^31" "unat (fPointCnt s) < 2^31"
    by (simp_all only: sle0_unat32)
qed

lemma wf_size:
  assumes "well_formed s"
  shows "length (block s) = unat (fFreeSpace s) + 8 * unat (fPointCnt s) + unat (fVerbCnt s)"
proof -
  note b = wf_bounds [OF assms]
  from assms have c: "0 \<le>s fVerbCnt s" "0 \<le>s fPointCnt s" and e: "size_equation s"
    by (simp_all add: well_formed_def validate_def)
  have p: "unat (scast (fPointCnt s) :: 64 word) = unat (fPointCnt s)"
    and v: "unat (scast (fVerbCnt s) :: 64 word) = unat (fVerbCnt s)"
    using c by (simp_all only: unat_scast_nonneg)
  have "unat (8 * (scast (fPointCnt s) :: 64 word)) = 8 * unat (fPointCnt s)"
    using b(4) by (simp add: unat_word_ariths p)
  moreover from this have "unat (fFreeSpace s + 8 * (scast (fPointCnt s) :: 64 word))
      = unat (fFreeSpace s) + 8 * unat (fPointCnt s)"
    using b(1,4) by (simp add: unat_word_ariths)
  ultimately have "unat (fFreeSpace s + 8 * scast (fPointCnt s) + scast (fVerbCnt s))
      = unat (fFreeSpace s) + 8 * unat (fPointCnt s) + unat (fVerbCnt s)"
    using b(1,3,4) v by (simp add: unat_word_ariths)
  moreover from e have "currSize s = fFreeSpace s + 8 * scast (fPointCnt s) + scast (fVerbCnt s)"
    by (simp add: size_equation_def sizeof_SkPoint_def sizeof_uint8_def)
  ultimately show ?thesis using b(5) by simp
qed

section \<open>makeSpace\<close>

lemma makeSpace_noop:
  assumes "well_formed s" and "unat n < 2^63" and "n \<le> fFreeSpace s"
  shows "makeSpace s n = Some s"
proof -
  note b = wf_bounds [OF assms(1)]
  have "sint (n - fFreeSpace s) = uint n - uint (fFreeSpace s)"
    using assms(2) b(1) by (rule sint_diff64)
  moreover have "uint n \<le> uint (fFreeSpace s)" using assms(3) by (simp add: word_le_def)
  ultimately have "n - fFreeSpace s \<le>s 0" by (simp add: word_sle_eq)
  then show ?thesis by (simp add: makeSpace_def)
qed

text \<open>The growth amount the source computes is the one the specification describes.\<close>

lemma growSize_value:
  assumes "well_formed s" and "unat n \<le> 2^63 - 8" and "fFreeSpace s < n"
  defines "g0 \<equiv> ((n - fFreeSpace s) + 7) AND NOT 7"
  defines "g1 \<equiv> (if g0 < currSize s then currSize s else g0)"
  defines "g2 \<equiv> (if g1 <s kMinSize then kMinSize else g1)"
  shows "\<not> (n - fFreeSpace s \<le>s 0)"
    and "unat g2 = spec_growth (unat n) (unat (fFreeSpace s)) (length (block s))"
    and "unat g2 < 2^63" and "256 \<le> unat g2"
proof -
  note b = wf_bounds [OF assms(1)]
  have n63: "unat n < 2^63" using assms(2) by simp
  have "sint (n - fFreeSpace s) = uint n - uint (fFreeSpace s)"
    using n63 b(1) by (rule sint_diff64)
  moreover have "uint (fFreeSpace s) < uint n" using assms(3) by (simp add: word_less_def)
  ultimately show "\<not> (n - fFreeSpace s \<le>s 0)" by (simp add: word_sle_eq)
  have d: "unat (n - fFreeSpace s) = unat n - unat (fFreeSpace s)"
    using assms(3) by (simp add: unat_sub)
  then have "unat (n - fFreeSpace s) \<le> 2^63 - 8" using assms(2) by simp
  then have r: "unat g0 = round_up8 (unat n - unat (fFreeSpace s))"
    unfolding g0_def round_up8_def by (simp only: round8 d)
  have "round_up8 (unat n - unat (fFreeSpace s)) \<le> 2^63 - 8"
    using assms(2) unfolding round_up8_def by simp
  with r have g0b: "unat g0 < 2^63" by simp
  have u1: "unat g1 = max (unat g0) (length (block s))"
    unfolding g1_def using b(5) by (simp add: word_less_nat_alt max_def)
  then have g1b: "unat g1 < 2^63" using g0b b(2) by simp
  have k: "unat kMinSize = 256" by (simp add: kMinSize_def)
  then have kb: "unat kMinSize < 2^63" by simp
  have u2: "unat g2 = max (unat g1) 256"
    unfolding g2_def using sless_unat(1) [OF g1b kb] k by (simp add: max_def)
  show "unat g2 = spec_growth (unat n) (unat (fFreeSpace s)) (length (block s))"
    by (simp add: u2 u1 r spec_growth_def)
  show "unat g2 < 2^63" using u2 g1b by simp
  show "256 \<le> unat g2" using u2 by simp
qed

lemma realloc_grow:
  "length (block s) \<le> k \<Longrightarrow>
   sk_realloc_throw (fPoints s) k = block s @ replicate (k - length (block s)) None"
  by (cases "fPoints s") (simp_all add: sk_realloc_throw_def block_def)

lemma memmove_verbs:
  assumes "v \<le> length b"
  shows "memmove (b @ replicate g None) (length b + g - v) (length b - v) v
           = Some (take (length b + g - v) (b @ replicate g None) @ drop (length b - v) b)"
proof (cases "v = 0")
  case True
  then show ?thesis by (simp add: memmove_def mem_read_def mem_write_def)
next
  case False
  with assms have ne: "drop (length b - v) b \<noteq> []" by simp
  have r: "mem_read (b @ replicate g None) (length b - v) v = Some (drop (length b - v) b)"
    using assms False by (simp add: mem_read_def)
  have l: "length (drop (length b - v) b) = v" using assms by simp
  show ?thesis using assms ne
    by (simp add: memmove_def r mem_write_def l)
qed

text \<open>What \<^verbatim>\<open>makeSpace\<close> returns when it grows the block, in closed form.\<close>

lemma makeSpace_grow:
  assumes wf: "well_formed s" and n: "unat n \<le> 2^63 - 8" and lt: "fFreeSpace s < n"
  defines "G \<equiv> spec_growth (unat n) (unat (fFreeSpace s)) (length (block s))"
  shows "makeSpace s n =
           Some (s\<lparr>fPoints := Some (take (length (block s) + G - unat (fVerbCnt s))
                                    (block s @ replicate G None)
                                  @ drop (length (block s) - unat (fVerbCnt s)) (block s)),
                   fFreeSpace := fFreeSpace s + of_nat G\<rparr>)"
proof -
  define g0 where "g0 = ((n - fFreeSpace s) + 7) AND NOT 7"
  define g1 where "g1 = (if g0 < currSize s then currSize s else g0)"
  define g2 where "g2 = (if g1 <s kMinSize then kMinSize else g1)"
  note b = wf_bounds [OF wf]
  note gs = growSize_value [OF wf n lt, folded g0_def, folded g1_def, folded g2_def, folded G_def]
  have "of_nat (unat g2) = g2" by simp
  then have g2: "g2 = of_nat G" by (simp only: gs(2))
  have uG: "unat g2 = G" by (rule gs(2))
  have c: "0 \<le>s fVerbCnt s" using wf by (simp add: well_formed_def)
  have V: "unat (scast (fVerbCnt s) * sizeof_uint8) = unat (fVerbCnt s)"
    using c by (simp add: sizeof_uint8_def unat_scast_nonneg)
  have vle: "unat (fVerbCnt s) \<le> length (block s)" using wf_size [OF wf] by simp
  have ns: "unat (currSize s + g2) = length (block s) + G"
    using b(2,5) gs(3) uG by (simp add: unat_word_ariths)
  have le1: "scast (fVerbCnt s) * sizeof_uint8 \<le> currSize s"
    using vle V b(5) by (simp add: word_le_nat_alt)
  have le2: "scast (fVerbCnt s) * sizeof_uint8 \<le> currSize s + g2"
    using vle V ns by (simp add: word_le_nat_alt)
  have o1: "unat (currSize s - scast (fVerbCnt s) * sizeof_uint8)
              = length (block s) - unat (fVerbCnt s)"
    using le1 V b(5) by (simp add: unat_sub)
  have o2: "unat (currSize s + g2 - scast (fVerbCnt s) * sizeof_uint8)
              = length (block s) + G - unat (fVerbCnt s)"
    using le2 V ns by (simp add: unat_sub)
  have re: "sk_realloc_throw (fPoints s) (length (block s) + G) = block s @ replicate G None"
    using realloc_grow [of s "length (block s) + G"] by simp
  have "makeSpace s n =
      (case memmove (sk_realloc_throw (fPoints s) (unat (currSize s + g2)))
              (unat (currSize s + g2 - scast (fVerbCnt s) * sizeof_uint8))
              (unat (currSize s - scast (fVerbCnt s) * sizeof_uint8))
              (unat (scast (fVerbCnt s) * sizeof_uint8)) of
         None \<Rightarrow> None
       | Some m' \<Rightarrow> Some (s\<lparr>fPoints := Some m', fFreeSpace := fFreeSpace s + g2\<rparr>))"
    by (simp only: makeSpace_def Let_def g2_def g1_def g0_def gs(1) if_False)
  then have "makeSpace s n =
      Some (s\<lparr>fPoints := Some (take (length (block s) + G - unat (fVerbCnt s))
                                    (block s @ replicate G None)
                                  @ drop (length (block s) - unat (fVerbCnt s)) (block s)),
              fFreeSpace := fFreeSpace s + g2\<rparr>)"
    by (simp only: ns o1 o2 V re memmove_verbs [OF vle] option.case)
  then show ?thesis by (simp only: g2)
qed

lemma wf_nat_sint:
  assumes "well_formed s"
  shows "nat (sint (fVerbCnt s)) = unat (fVerbCnt s)" "nat (sint (fPointCnt s)) = unat (fPointCnt s)"
  using wf_bounds(3,4) [OF assms] by (simp_all add: sint_unat32)

text \<open>
  Claim C3, as amended. For every well-formed storage and every requested size \<open>n\<close> of at
  most \<open>2^63 - 8\<close>: if \<open>freeSpace \<ge> n\<close> then \<^verbatim>\<open>makeSpace(n)\<close> changes nothing;
  otherwise it grows the allocation by \<open>g\<close>, where \<open>g\<close> is \<open>n - freeSpace\<close> rounded up to a
  multiple of 8, then clamped up to at least the old \<^verbatim>\<open>currSize()\<close> and at least 256
  bytes; afterwards \<open>freeSpace\<close> and \<^verbatim>\<open>currSize()\<close> have increased by exactly \<open>g\<close>, the
  counts are the same, the bytes of the points (the first \<open>8 * |points|\<close> bytes of the
  block) are the same, and the verb bytes are the last \<open>|verbs|\<close> bytes of the new block.
\<close>

theorem makeSpace_growth_rule:
  assumes wf: "well_formed s" and n: "unat n \<le> 2^63 - 8"
  shows "if n \<le> fFreeSpace s then makeSpace s n = Some s
         else (\<exists>s'. makeSpace s n = Some s' \<and>
                (let g = spec_growth (unat n) (unat (fFreeSpace s)) (unat (currSize s)) in
                   unat (fFreeSpace s') = unat (fFreeSpace s) + g \<and>
                   unat (currSize s') = unat (currSize s) + g \<and>
                   fPointCnt s' = fPointCnt s \<and> fVerbCnt s' = fVerbCnt s \<and>
                   point_bytes s' = point_bytes s \<and>
                   verb_bytes s' = verb_bytes s))"
proof (cases "n \<le> fFreeSpace s")
  case True
  have "unat n < 2^63" using n by simp
  with wf have "makeSpace s n = Some s" using True by (rule makeSpace_noop)
  with True show ?thesis by simp
next
  case False
  then have lt: "fFreeSpace s < n" by simp
  note b = wf_bounds [OF wf]
  define G where "G = spec_growth (unat n) (unat (fFreeSpace s)) (length (block s))"
  define V where "V = unat (fVerbCnt s)"
  define P where "P = unat (fPointCnt s)"
  define B where "B = block s"
  define s' where "s' = s\<lparr>fPoints := Some (take (length B + G - V) (B @ replicate G None)
                                  @ drop (length B - V) B),
                   fFreeSpace := fFreeSpace s + of_nat G\<rparr>"
  have ms: "makeSpace s n = Some s'"
    unfolding s'_def G_def V_def B_def by (rule makeSpace_grow [OF wf n lt])
  note gs = growSize_value [OF wf n lt]
  have G63: "G < 2^63" using gs(2,3) unfolding G_def by simp
  have sz: "length B = unat (fFreeSpace s) + 8 * P + V"
    unfolding B_def P_def V_def by (rule wf_size [OF wf])
  have blk: "block s' = take (length B + G - V) (B @ replicate G None) @ drop (length B - V) B"
    by (simp add: s'_def block_def)
  have len: "length (block s') = length B + G" using sz by (simp add: blk)
  have uG: "unat (of_nat G :: 64 word) = G" using G63 by (simp add: unat_of_nat)
  have f: "unat (fFreeSpace s') = unat (fFreeSpace s) + G"
    using b(1) G63 uG by (simp add: s'_def unat_word_ariths)
  have "length B + G < 2^64" using b(2) G63 unfolding B_def by simp
  then have c: "unat (currSize s') = length B + G"
    using len by (simp add: currSize_unat)
  have cnt: "fPointCnt s' = fPointCnt s" "fVerbCnt s' = fVerbCnt s" by (simp_all add: s'_def)
  have pb: "point_bytes s' = point_bytes s"
    using sz by (simp add: point_bytes_def cnt blk wf_nat_sint [OF wf] B_def [symmetric] P_def [symmetric])
  have vb: "verb_bytes s' = verb_bytes s"
    using sz by (simp add: verb_bytes_def cnt len blk wf_nat_sint [OF wf] B_def [symmetric] V_def [symmetric])
  show ?thesis
    using False ms f c cnt pb vb b(5) by (simp add: Let_def G_def B_def)
qed


lemma sample_path_block:
  "block sample_path = map Some [1, 2, 3, 4, 5, 6, 7, 8] @ replicate 246 None @ [Some 1, Some 0]"
  by (simp add: sample_path_def SkPathRef_ctor_def block_def)

lemma sample_path_fields:
  "fVerbCnt sample_path = 2" "fPointCnt sample_path = 1" "fFreeSpace sample_path = 246"
  "currSize sample_path = 256" "fPoints sample_path \<noteq> None"
  by (simp_all add: sample_path_def SkPathRef_ctor_def currSize_def)

lemma sample_path_wf: "well_formed sample_path"
  by (simp add: well_formed_def validate_def size_equation_def sample_path_block
      sample_path_fields sizeof_SkPoint_def sizeof_uint8_def word_sle_eq)

theorem makeSpace_growth_rule_witness:
  "well_formed sample_path \<and> unat (300 :: size_t) \<le> 2^63 - 8 \<and>
   \<not> 300 \<le> fFreeSpace sample_path \<and>
   (\<exists>s'. makeSpace sample_path 300 = Some s' \<and>
      unat (fFreeSpace s') = 246 + 256 \<and> unat (currSize s') = 256 + 256 \<and>
      fPointCnt s' = 1 \<and> fVerbCnt s' = 2 \<and>
      point_bytes s' = map Some [1, 2, 3, 4, 5, 6, 7, 8] \<and>
      verb_bytes s' = [Some 1, Some 0])"
proof -
  have n: "unat (300 :: size_t) \<le> 2^63 - 8" by simp
  have g: "spec_growth 300 246 256 = 256" by (simp add: spec_growth_def round_up8_def)
  have pb: "point_bytes sample_path = map Some [1, 2, 3, 4, 5, 6, 7, 8]"
    by (simp add: point_bytes_def sample_path_block sample_path_fields)
  have vb: "verb_bytes sample_path = [Some 1, Some 0]"
    by (simp add: verb_bytes_def sample_path_block sample_path_fields)
  show ?thesis
    using makeSpace_growth_rule [OF sample_path_wf n] sample_path_wf
    by (simp add: sample_path_fields g pb vb)
qed

text \<open>
  The claim as stated ("for every requested size \<open>n\<close>") fails for sizes beyond the range
  of \<^verbatim>\<open>ptrdiff_t\<close>: \<^verbatim>\<open>growSize\<close> is signed, so for \<open>n = 2^64 - 1\<close>, the value
  \<^verbatim>\<open>incReserve(-1, 0)\<close> passes, the difference is not positive and nothing changes,
  although \<open>freeSpace < n\<close>.
\<close>

theorem makeSpace_huge_request:
  "well_formed SkPathRef_ctor \<and> fFreeSpace SkPathRef_ctor < (- 1 :: size_t) \<and>
   makeSpace SkPathRef_ctor (- 1) = Some SkPathRef_ctor"
  by (simp add: well_formed_def validate_def size_equation_def makeSpace_def SkPathRef_ctor_def
      currSize_def block_def word_sle_eq word_gt_0)

section \<open>resetToSize\<close>

lemma count_bytes:
  assumes "0 \<le>s (v::int32)" "0 \<le>s (p::int32)"
  shows "unat (sizeof_uint8 * scast v + sizeof_SkPoint * scast p) = unat v + 8 * unat p"
    and "unat v + 8 * unat p < 2^35"
proof -
  have v: "unat v < 2^31" and p: "unat p < 2^31" using assms by (simp_all only: sle0_unat32)
  have sv: "unat (scast v :: 64 word) = unat v" and sp: "unat (scast p :: 64 word) = unat p"
    using assms by (simp_all only: unat_scast_nonneg)
  show "unat v + 8 * unat p < 2^35" using v p by simp
  have "unat (8 * (scast p :: 64 word)) = 8 * unat p"
    using p by (simp add: unat_word_ariths sp)
  then show "unat (sizeof_uint8 * scast v + sizeof_SkPoint * scast p) = unat v + 8 * unat p"
    using v p sv by (simp add: sizeof_uint8_def sizeof_SkPoint_def unat_word_ariths)
qed

lemma minSize_bytes:
  assumes "0 \<le>s (v::int32)" "0 \<le>s (p::int32)" "0 \<le>s (rv::int32)" "0 \<le>s (rp::int32)"
  shows "unat ((sizeof_uint8 * scast v + sizeof_SkPoint * scast p)
               + (sizeof_uint8 * scast rv + sizeof_SkPoint * scast rp))
         = unat v + 8 * unat p + unat rv + 8 * unat rp"
    and "unat v + 8 * unat p + unat rv + 8 * unat rp < 2^36"
proof -
  note a = count_bytes [OF assms(1,2)] and b = count_bytes [OF assms(3,4)]
  show "unat v + 8 * unat p + unat rv + 8 * unat rp < 2^36" using a(2) b(2) by simp
  show "unat ((sizeof_uint8 * scast v + sizeof_SkPoint * scast p)
               + (sizeof_uint8 * scast rv + sizeof_SkPoint * scast rp))
         = unat v + 8 * unat p + unat rv + 8 * unat rp"
    using a b by (simp add: unat_word_ariths)
qed

lemma reallocates_iff:
  assumes wf: "well_formed s"
    and nn: "0 \<le>s verbCount" "0 \<le>s pointCount" "0 \<le>s reserveVerbs" "0 \<le>s reservePoints"
  defines "minSize \<equiv> unat verbCount + 8 * unat pointCount + unat reserveVerbs + 8 * unat reservePoints"
  shows "reallocates s verbCount pointCount reserveVerbs reservePoints \<longleftrightarrow>
           (unat (currSize s) < minSize \<or> 3 * minSize \<le> unat (currSize s) - minSize)"
proof -
  note b = wf_bounds [OF wf]
  define m :: size_t where "m = (sizeof_uint8 * scast verbCount + sizeof_SkPoint * scast pointCount)
               + (sizeof_uint8 * scast reserveVerbs + sizeof_SkPoint * scast reservePoints)"
  have um: "unat m = minSize" and mb: "minSize < 2^36"
    unfolding m_def minSize_def by (rule minSize_bytes [OF nn])+
  have m63: "unat m < 2^63" using um mb by simp
  have c63: "unat (currSize s) < 2^63" using b(2,5) by simp
  have sd: "sint (currSize s - m) = uint (currSize s) - uint m"
    using c63 m63 by (rule sint_diff64)
  have neg: "(currSize s - m <s 0) = (unat (currSize s) < minSize)"
    using sd um by (simp add: word_sless_alt word_less_def [symmetric] word_less_nat_alt)
  have u3: "unat (3 * m) = 3 * minSize" using um mb by (simp add: unat_word_ariths)
  have ge: "\<not> unat (currSize s) < minSize \<Longrightarrow>
      (3 * m \<le> currSize s - m) = (3 * minSize \<le> unat (currSize s) - minSize)"
  proof -
    assume "\<not> unat (currSize s) < minSize"
    then have "m \<le> currSize s" using um by (simp add: word_le_nat_alt)
    then have "unat (currSize s - m) = unat (currSize s) - minSize" using um by (simp add: unat_sub)
    then show ?thesis using u3 by (simp add: word_le_nat_alt)
  qed
  have "reallocates s verbCount pointCount reserveVerbs reservePoints
      = (currSize s - m <s 0 \<or> 3 * m \<le> currSize s - m)"
    by (simp add: reallocates_def Let_def m_def)
  then show ?thesis using neg ge by auto
qed


lemma resetToSize_realloc:
  assumes "reallocates s v p rv rp"
  shows "resetToSize s v p c rv rp =
     (case makeSpace (cleared s)
             ((sizeof_uint8 * scast v + sizeof_SkPoint * scast p)
               + (sizeof_uint8 * scast rv + sizeof_SkPoint * scast rp)) of
        None \<Rightarrow> None
      | Some s1 \<Rightarrow>
          Some (s1\<lparr>fVerbCnt := v, fPointCnt := p,
                   fFreeSpace := fFreeSpace s1 - (sizeof_uint8 * scast v + sizeof_SkPoint * scast p),
                   fConicWeights := setCount (fConicWeights s1) c\<rparr>))"
  using assms
  by (simp add: resetToSize_def reallocates_def Let_def currSize_def cleared_def
      split: option.splits)

lemma resetToSize_reuse:
  assumes "\<not> reallocates s v p rv rp"
  shows "resetToSize s v p c rv rp =
     Some (s\<lparr>fBoundsIsDirty := True, fGenerationID := 0, fPointCnt := p, fVerbCnt := v,
             fFreeSpace := currSize s - ((sizeof_uint8 * scast v + sizeof_SkPoint * scast p)
               + (sizeof_uint8 * scast rv + sizeof_SkPoint * scast rp)),
             fConicWeights := setCount (fConicWeights s) c\<rparr>)"
  using assms
  by (simp add: resetToSize_def reallocates_def Let_def currSize_def)

lemma cleared_wf: "well_formed (cleared s)"
  by (simp add: cleared_def well_formed_def validate_def size_equation_def currSize_def block_def
      word_sle_eq)

lemma cleared_fields:
  "block (cleared s) = []" "fFreeSpace (cleared s) = 0" "fVerbCnt (cleared s) = 0"
  "fPoints (cleared s) = None"
  by (simp_all add: cleared_def block_def)

lemma makeSpace_cleared:
  assumes "unat m \<le> 2^63 - 8"
  shows "makeSpace (cleared s) m =
     (if m = 0 then Some (cleared s)
      else Some ((cleared s)\<lparr>fPoints := Some (replicate (max (round_up8 (unat m)) 256) None),
                            fFreeSpace := of_nat (max (round_up8 (unat m)) 256)\<rparr>))"
proof (cases "m = 0")
  case True
  then show ?thesis by (simp add: makeSpace_def cleared_fields)
next
  case False
  then have lt: "fFreeSpace (cleared s) < m" by (simp add: cleared_fields word_gt_0)
  show ?thesis
    using makeSpace_grow [OF cleared_wf assms lt] False
    by (simp add: cleared_fields spec_growth_def)
qed


text \<open>
  Claim C7, as amended. For every call \<^verbatim>\<open>resetToSize(vN, pN, cN, reserveV, reserveP)\<close> on
  a well-formed storage with counts and reserves that are not negative, and
  \<open>minSize = vN + 8 * pN + reserveV + 8 * reserveP\<close>: the call returns; the block is freed and
  allocated anew exactly when \<open>currSize() < minSize\<close> or \<open>currSize() - minSize \<ge> 3 * minSize\<close>;
  in that case the new block is not \<open>minSize\<close> bytes long but \<open>minSize\<close> rounded up to a
  multiple of 8 and clamped up to 256 bytes (the growth rule of \<^verbatim>\<open>makeSpace\<close>), all of
  it indeterminate, and there is no block at all when \<open>minSize = 0\<close>; otherwise the block is
  the one the storage had.
\<close>

theorem resetToSize_reallocation:
  assumes wf: "well_formed s"
    and nn: "0 \<le>s vN" "0 \<le>s pN" "0 \<le>s reserveV" "0 \<le>s reserveP"
  defines "minSize \<equiv> unat vN + 8 * unat pN + unat reserveV + 8 * unat reserveP"
  shows "(reallocates s vN pN reserveV reserveP \<longleftrightarrow>
            (unat (currSize s) < minSize \<or> 3 * minSize \<le> unat (currSize s) - minSize)) \<and>
         (\<exists>s'. resetToSize s vN pN cN reserveV reserveP = Some s' \<and>
            (if reallocates s vN pN reserveV reserveP
             then block s' = replicate (if minSize = 0 then 0 else max (round_up8 minSize) 256) None
                  \<and> (fPoints s' = None) = (minSize = 0)
             else fPoints s' = fPoints s))"
proof -
  define m :: size_t where "m = (sizeof_uint8 * scast vN + sizeof_SkPoint * scast pN)
               + (sizeof_uint8 * scast reserveV + sizeof_SkPoint * scast reserveP)"
  have um: "unat m = minSize" and mb: "minSize < 2^36"
    unfolding m_def minSize_def by (rule minSize_bytes [OF nn])+
  have m8: "unat m \<le> 2^63 - 8" using um mb by simp
  have m0: "(m = 0) = (minSize = 0)" using um by (simp add: unat_eq_zero [symmetric])
  have iff: "reallocates s vN pN reserveV reserveP \<longleftrightarrow>
            (unat (currSize s) < minSize \<or> 3 * minSize \<le> unat (currSize s) - minSize)"
    unfolding minSize_def by (rule reallocates_iff [OF wf nn])
  have res: "\<exists>s'. resetToSize s vN pN cN reserveV reserveP = Some s' \<and>
            (if reallocates s vN pN reserveV reserveP
             then block s' = replicate (if minSize = 0 then 0 else max (round_up8 minSize) 256) None
                  \<and> (fPoints s' = None) = (minSize = 0)
             else fPoints s' = fPoints s)"
  proof (cases "reallocates s vN pN reserveV reserveP")
    case True
    show ?thesis
      using True m0 um
      by (simp add: resetToSize_realloc [OF True] m_def [symmetric] makeSpace_cleared [OF m8]
          block_def cleared_fields)
  next
    case False
    show ?thesis using False by (simp add: resetToSize_reuse [OF False])
  qed
  from iff res show ?thesis by (rule conjI)
qed

lemma ctor_wf: "well_formed SkPathRef_ctor"
  by (simp add: well_formed_def validate_def size_equation_def SkPathRef_ctor_def
      currSize_def block_def word_sle_eq)

theorem resetToSize_reallocation_witness:
  "well_formed sample_path \<and> 0 \<le>s (100::int32) \<and> 0 \<le>s (50::int32) \<and> 0 \<le>s (0::int32) \<and>
   reallocates sample_path 100 50 0 0 \<and>
   (\<exists>s'. resetToSize sample_path 100 50 0 0 0 = Some s' \<and> block s' = replicate 504 None
      \<and> fPoints s' \<noteq> None)"
proof -
  have nn: "0 \<le>s (100::int32)" "0 \<le>s (50::int32)" "0 \<le>s (0::int32)"
    by (simp_all add: word_sle_eq)
  have r: "round_up8 500 = 504" by (simp add: round_up8_def)
  have m: "unat (100::int32) + 8 * unat (50::int32) + unat (0::int32) + 8 * unat (0::int32) = 500"
    by simp
  show ?thesis
    using resetToSize_reallocation [OF sample_path_wf nn(1) nn(2) nn(3) nn(3), of 0] nn
      sample_path_wf
    unfolding m by (auto simp: sample_path_fields r)
qed

text \<open>
  The claim as stated ("the new allocation is exactly \<open>minSize\<close> bytes") fails:
  \<^verbatim>\<open>resetToSize(1, 1, 0)\<close> on a new storage has \<open>minSize = 9\<close> and allocates 256 bytes.
\<close>

theorem resetToSize_allocates_more:
  "unat (1::int32) + 8 * unat (1::int32) + unat (0::int32) + 8 * unat (0::int32) = 9 \<and>
   reallocates SkPathRef_ctor 1 1 0 0 \<and>
   map_option block (resetToSize SkPathRef_ctor 1 1 0 0 0) = Some (replicate 256 None)"
proof -
  have nn: "0 \<le>s (1::int32)" "0 \<le>s (0::int32)" by (simp_all add: word_sle_eq)
  have r: "reallocates SkPathRef_ctor 1 1 0 0"
    by (simp add: reallocates_iff [OF ctor_wf nn(1) nn(1) nn(2) nn(2)])
      (simp add: SkPathRef_ctor_def currSize_def)
  have "unat (9::size_t) \<le> 2^63 - 8" by simp
  then have "makeSpace (cleared SkPathRef_ctor) 9 =
      Some ((cleared SkPathRef_ctor)\<lparr>fPoints := Some (replicate 256 None), fFreeSpace := 256\<rparr>)"
    by (simp add: makeSpace_cleared round_up8_def)
  then show ?thesis
    using r by (simp add: resetToSize_realloc [OF r] sizeof_uint8_def sizeof_SkPoint_def block_def)
qed

text \<open>
  Claim C8 says that in the reuse branch \<open>freeSpace\<close> becomes \<open>currSize - (vN + 8 * pN)\<close>.
  Line 448 subtracts \<open>minSize\<close>, which includes the reserve. On the storage of 256 bytes
  that \<^verbatim>\<open>makeSpace(1)\<close> makes of a new storage, \<^verbatim>\<open>resetToSize(90, 0, 0, 10, 0)\<close> reuses
  the block and leaves \<open>freeSpace = 156\<close>, where the claim (and the equation that
  \<^verbatim>\<open>validate\<close> asserts at line 451) asks for \<open>256 - 90 = 166\<close>.
\<close>

theorem resetToSize_reuse_with_reserve:
  "makeSpace SkPathRef_ctor 1 = Some storage256 \<and>
   \<not> reallocates storage256 90 0 10 0 \<and>
   map_option fFreeSpace (resetToSize storage256 90 0 0 10 0) = Some 156 \<and>
   map_option currSize (resetToSize storage256 90 0 0 10 0) = Some 256 \<and>
   map_option fVerbCnt (resetToSize storage256 90 0 0 10 0) = Some 90 \<and>
   map_option fPointCnt (resetToSize storage256 90 0 0 10 0) = Some 0 \<and>
   map_option size_equation (resetToSize storage256 90 0 0 10 0) = Some False"
proof -
  have c: "cleared SkPathRef_ctor = SkPathRef_ctor\<lparr>fGenerationID := 0\<rparr>"
    by (simp add: cleared_def SkPathRef_ctor_def)
  have a: "makeSpace SkPathRef_ctor 1 = Some storage256"
    by (simp add: makeSpace_def SkPathRef_ctor_def storage256_def currSize_def kMinSize_def
        sk_realloc_throw_def memmove_def mem_read_def mem_write_def sizeof_uint8_def
        word_sle_eq word_sless_alt)
  have r: "\<not> reallocates storage256 90 0 10 0"
    by (simp add: reallocates_def storage256_def SkPathRef_ctor_def currSize_def
        sizeof_uint8_def sizeof_SkPoint_def word_sle_eq word_sless_alt)
  show ?thesis
    using a r
    by (simp add: resetToSize_reuse [OF r] size_equation_def)
      (simp add: storage256_def SkPathRef_ctor_def currSize_def sizeof_uint8_def sizeof_SkPoint_def)
qed

section \<open>Bounds of degenerate paths\<close>

lemma count_le_1:
  assumes "well_formed s" "fPointCnt s \<le>s 1"
  shows "fPointCnt s = 0 \<or> fPointCnt s = 1"
proof -
  have u: "unat (fPointCnt s) < 2^31" by (rule wf_bounds(4) [OF assms(1)])
  then have "sint (fPointCnt s) = int (unat (fPointCnt s))" by (rule sint_unat32)
  with assms(2) have "fPointCnt s \<le> 1" by (simp add: word_sle_eq word_le_def)
  then have "unat (fPointCnt s) \<le> 1" by (simp add: word_le_nat_alt)
  then have "unat (fPointCnt s) = 0 \<or> unat (fPointCnt s) = 1" by arith
  then show ?thesis by (auto simp: word_unat_eq_iff)
qed

text \<open>
  Claim C9. For every well-formed storage with at most one point whose bounds are dirty,
  \<^verbatim>\<open>getBounds()\<close> and \<^verbatim>\<open>isFinite()\<close> both compute the bounds: the bounds become the
  empty rectangle (which \<^verbatim>\<open>getBounds\<close> returns), and \<^verbatim>\<open>fIsFinite\<close> becomes (and
  \<^verbatim>\<open>isFinite\<close> returns) true when there is no point and, when there is one,
  \<^verbatim>\<open>SkPoint::isFinite\<close> of that point.
\<close>

theorem bounds_of_degenerate_path:
  assumes wf: "well_formed s" and dirty: "fBoundsIsDirty s" and le: "fPointCnt s \<le>s 1"
  shows "\<exists>s'. getBounds X s = Some (setEmpty, s') \<and>
              isFinite X s =
                Some (if fPointCnt s = 0 then True else SkPoint_isFinite X (point_bytes s), s') \<and>
              computeBounds X s = Some s' \<and>
              fBounds s' = Some setEmpty \<and>
              fIsFinite s' =
                Some (if fPointCnt s = 0 then True else SkPoint_isFinite X (point_bytes s)) \<and>
              \<not> fBoundsIsDirty s'"
proof -
  from count_le_1 [OF wf le] show ?thesis
  proof
    assume z: "fPointCnt s = 0"
    then have "ComputePtBounds X s = Some (setEmpty, True)"
      by (simp add: ComputePtBounds_def word_sle_eq)
    then show ?thesis using dirty z
      by (simp add: getBounds_def isFinite_def computeBounds_def)
  next
    assume o: "fPointCnt s = 1"
    have "8 \<le> length (block s)" using wf_size [OF wf] o by simp
    then have r: "mem_read (block s) 0 (unat sizeof_SkPoint) = Some (take 8 (block s))"
      by (simp add: mem_read_def sizeof_SkPoint_def)
    have pb: "point_bytes s = take 8 (block s)" using o by (simp add: point_bytes_def)
    have "ComputePtBounds X s = Some (setEmpty, SkPoint_isFinite X (point_bytes s))"
      using o r pb by (simp add: ComputePtBounds_def word_sle_eq)
    then show ?thesis using dirty o
      by (simp add: getBounds_def isFinite_def computeBounds_def)
  qed
qed

theorem bounds_of_degenerate_path_witness:
  "well_formed sample_path \<and> fBoundsIsDirty sample_path \<and> fPointCnt sample_path \<le>s 1 \<and>
   (\<exists>s'. getBounds sample_collaborators sample_path = Some (setEmpty, s') \<and>
      isFinite sample_collaborators sample_path = Some (True, s') \<and>
      fBounds s' = Some setEmpty \<and> fIsFinite s' = Some True \<and> \<not> fBoundsIsDirty s')"
proof -
  have d: "fBoundsIsDirty sample_path" by (simp add: sample_path_def SkPathRef_ctor_def)
  have le: "fPointCnt sample_path \<le>s 1" by (simp add: sample_path_fields word_sle_eq)
  have pb: "point_bytes sample_path = map Some [1, 2, 3, 4, 5, 6, 7, 8]"
    by (simp add: point_bytes_def sample_path_block sample_path_fields)
  have f: "SkPoint_isFinite sample_collaborators (point_bytes sample_path)"
    by (simp add: pb sample_collaborators_def scalar_finite_def)
  show ?thesis
    using bounds_of_degenerate_path [OF sample_path_wf d le, of sample_collaborators]
      sample_path_wf d le f
    by (auto simp: sample_path_fields)
qed

section \<open>The generation ID\<close>

lemma genID_loop_step:
  "genID_loop g = (if g + 1 \<le>s kEmptyGenID then genID_loop (g + 1) else (g + 1, g + 1))"
  by (subst genID_loop.simps) (simp add: Let_def)





section \<open>Copying a storage\<close>

lemma mem_read_ok: "off + n \<le> length m \<Longrightarrow> mem_read m off n = Some (take n (drop off m))"
  by (simp add: mem_read_def)

lemma mem_write_ok:
  "off + length bs \<le> length m \<Longrightarrow>
   mem_write m off bs = Some (take off m @ bs @ drop (off + length bs) m)"
  by (simp add: mem_write_def)

lemma wf_regions:
  assumes wf: "well_formed s"
  shows "verb_bytes s = drop (length (block s) - unat (fVerbCnt s)) (block s)"
    and "point_bytes s = take (8 * unat (fPointCnt s)) (block s)"
    and "length (verb_bytes s) = unat (fVerbCnt s)"
    and "length (point_bytes s) = 8 * unat (fPointCnt s)"
    and "verbsMemBegin s = length (block s) - unat (fVerbCnt s)"
    and "unat (scast (fVerbCnt s) * sizeof_uint8) = unat (fVerbCnt s)"
    and "unat (scast (fPointCnt s) * sizeof_SkPoint) = 8 * unat (fPointCnt s)"
proof -
  note b = wf_bounds [OF wf] and sz = wf_size [OF wf] and ns = wf_nat_sint [OF wf]
  from wf have c: "0 \<le>s fVerbCnt s" "0 \<le>s fPointCnt s" by (simp_all add: well_formed_def)
  show v: "verb_bytes s = drop (length (block s) - unat (fVerbCnt s)) (block s)"
    by (simp add: verb_bytes_def ns)
  show p: "point_bytes s = take (8 * unat (fPointCnt s)) (block s)"
    by (simp add: point_bytes_def ns)
  show "length (verb_bytes s) = unat (fVerbCnt s)" using sz by (simp add: v)
  show "length (point_bytes s) = 8 * unat (fPointCnt s)" using sz by (simp add: p)
  have sv: "unat (scast (fVerbCnt s) :: 64 word) = unat (fVerbCnt s)"
    using c(1) by (rule unat_scast_nonneg)
  have sp: "unat (scast (fPointCnt s) :: 64 word) = unat (fPointCnt s)"
    using c(2) by (rule unat_scast_nonneg)
  show "unat (scast (fVerbCnt s) * sizeof_uint8) = unat (fVerbCnt s)"
    by (simp add: sizeof_uint8_def sv)
  show "unat (scast (fPointCnt s) * sizeof_SkPoint) = 8 * unat (fPointCnt s)"
    using b(4) by (simp add: sizeof_SkPoint_def unat_word_ariths sp)
  have "scast (fVerbCnt s) \<le> currSize s" using sz sv b(5) by (simp add: word_le_nat_alt)
  then show "verbsMemBegin s = length (block s) - unat (fVerbCnt s)"
    using sv b(5) by (simp add: verbsMemBegin_def unat_sub)
qed


lemma round_up8_ge: "k \<le> round_up8 k"
  unfolding round_up8_def by arith

lemma copy_fresh:
  assumes wf: "well_formed src" and nn: "0 \<le>s rv" "0 \<le>s rp"
  shows "\<exists>c n. copy SkPathRef_ctor src rv rp = Some c \<and>
           block c = point_bytes src @ replicate n None @ verb_bytes src \<and>
           fVerbCnt c = fVerbCnt src \<and> fPointCnt c = fPointCnt src \<and>
           fConicWeights c = fConicWeights src \<and>
           fGenerationID c = fGenerationID src \<and>
           fBoundsIsDirty c = fBoundsIsDirty src \<and>
           (\<not> fBoundsIsDirty src \<longrightarrow> fBounds c = fBounds src \<and> fIsFinite c = fIsFinite src) \<and>
           fRefCnt c = 1 \<and> fEditorsAttached c = 0"
proof -
  note rg = wf_regions [OF wf] and b = wf_bounds [OF wf]
  from wf have cn: "0 \<le>s fVerbCnt src" "0 \<le>s fPointCnt src" by (simp_all add: well_formed_def)
  define V where "V = unat (fVerbCnt src)"
  define P where "P = unat (fPointCnt src)"
  define M where "M = V + 8 * P + unat rv + 8 * unat rp"
  define G where "G = (if M = 0 then 0 else max (round_up8 M) 256)"
  define ns :: size_t where
    "ns = sizeof_uint8 * scast (fVerbCnt src) + sizeof_SkPoint * scast (fPointCnt src)"
  define m :: size_t where
    "m = ns + (sizeof_uint8 * scast rv + sizeof_SkPoint * scast rp)"
  define cc :: int32 where "cc = of_nat (length (fConicWeights src))"
  have um: "unat m = M" and mb: "M < 2^36"
    unfolding m_def ns_def M_def V_def P_def by (rule minSize_bytes [OF cn nn])+
  have m8: "unat m \<le> 2^63 - 8" using um mb by simp
  have m0: "(m = 0) = (M = 0)" using um by (simp add: unat_eq_zero [symmetric])
  have GM: "8 * P + V \<le> G"
  proof (cases "M = 0")
    case True then show ?thesis by (simp add: M_def G_def)
  next
    case False
    have "8 * P + V \<le> M" by (simp add: M_def)
    also have "M \<le> round_up8 M" by (rule round_up8_ge)
    finally show ?thesis using False by (simp add: G_def)
  qed
  have G63: "G < 2^63"
  proof -
    have "round_up8 M \<le> M + 7" unfolding round_up8_def by arith
    then show ?thesis using mb by (simp add: G_def)
  qed
  have c0: "unat (currSize SkPathRef_ctor) = 0" by (simp add: SkPathRef_ctor_def currSize_def)
  have re: "reallocates SkPathRef_ctor (fVerbCnt src) (fPointCnt src) rv rp"
    by (simp only: reallocates_iff [OF ctor_wf cn nn] c0) arith
  define t where "t = (cleared SkPathRef_ctor)
      \<lparr>fPoints := (if M = 0 then None else Some (replicate G None)),
       fFreeSpace := of_nat G - ns, fVerbCnt := fVerbCnt src, fPointCnt := fPointCnt src,
       fConicWeights := setCount [] cc\<rparr>"
  have rt0: "resetToSize SkPathRef_ctor (fVerbCnt src) (fPointCnt src) cc rv rp =
     (case makeSpace (cleared SkPathRef_ctor) m of
        None \<Rightarrow> None
      | Some s1 \<Rightarrow>
          Some (s1\<lparr>fVerbCnt := fVerbCnt src, fPointCnt := fPointCnt src,
                   fFreeSpace := fFreeSpace s1 - ns,
                   fConicWeights := setCount (fConicWeights s1) cc\<rparr>))"
    unfolding m_def ns_def by (rule resetToSize_realloc [OF re])
  have rt: "resetToSize SkPathRef_ctor (fVerbCnt src) (fPointCnt src) cc rv rp = Some t"
    unfolding rt0 makeSpace_cleared [OF m8] using m0 um
    by (simp add: t_def G_def cleared_def SkPathRef_ctor_def)
  have bt: "block t = replicate G None" by (simp add: t_def block_def G_def)
  have ct: "currSize t = of_nat G" by (simp add: t_def currSize_def G_def)
  have sv: "unat (scast (fVerbCnt src) :: size_t) = V"
    unfolding V_def using cn(1) by (rule unat_scast_nonneg)
  have uG: "unat (of_nat G :: size_t) = G" using G63 by (simp add: unat_of_nat)
  have "scast (fVerbCnt src) \<le> (of_nat G :: size_t)"
    using GM sv uG by (simp add: word_le_nat_alt)
  moreover have ft: "fVerbCnt t = fVerbCnt src" by (simp add: t_def)
  ultimately have vt: "verbsMemBegin t = G - V"
    using sv uG by (simp add: verbsMemBegin_def ct unat_sub)
  have r1: "mem_read (block src) (verbsMemBegin src) (unat (scast (fVerbCnt src) * sizeof_uint8))
              = Some (verb_bytes src)"
    using wf_size [OF wf]
    by (simp add: rg(5,6) mem_read_ok rg(1))
  have w1: "mem_write (block t) (verbsMemBegin t) (verb_bytes src)
              = Some (replicate (G - V) None @ verb_bytes src)"
    using GM by (simp add: mem_write_ok bt vt rg(3) V_def [symmetric])
  have r2: "mem_read (block src) 0 (unat (scast (fPointCnt src) * sizeof_SkPoint))
              = Some (point_bytes src)"
    using wf_size [OF wf] by (simp add: rg(7) mem_read_ok rg(2))
  have w2: "mem_write (replicate (G - V) None @ verb_bytes src) 0 (point_bytes src)
              = Some (point_bytes src @ replicate (G - V - 8 * P) None @ verb_bytes src)"
    using GM by (simp add: mem_write_ok rg(3,4) V_def [symmetric] P_def [symmetric])
  define m2 where "m2 = point_bytes src @ replicate (G - V - 8 * P) None @ verb_bytes src"
  have sb: "block (set_block t m2) = m2"
  proof (cases "M = 0")
    case True
    then have "V = 0" "P = 0" "G = 0" by (simp_all add: M_def G_def)
    then have "m2 = []" using rg(3,4) by (simp add: m2_def V_def P_def)
    then show ?thesis using True by (simp add: set_block_def t_def block_def)
  next
    case False
    then show ?thesis by (simp add: set_block_def t_def block_def)
  qed
  have sf: "fVerbCnt (set_block t m2) = fVerbCnt src" "fPointCnt (set_block t m2) = fPointCnt src"
    "fRefCnt (set_block t m2) = 1" "fEditorsAttached (set_block t m2) = 0"
    by (simp_all add: set_block_def t_def cleared_def SkPathRef_ctor_def split: option.splits)
  define c where "c = (let t1 = (set_block t m2)
                                     \<lparr>fConicWeights := fConicWeights src,
                                      fGenerationID := fGenerationID src,
                                      fBoundsIsDirty := fBoundsIsDirty src\<rparr>
                       in (if \<not> fBoundsIsDirty t1
                           then t1\<lparr>fBounds := fBounds src, fIsFinite := fIsFinite src\<rparr>
                           else t1))"
  have cp: "copy SkPathRef_ctor src rv rp = Some c"
    by (simp add: copy_def rt [unfolded cc_def] r1 w1 r2 w2 c_def m2_def Let_def)
  have "block c = m2" using sb by (simp add: c_def Let_def block_def)
  then show ?thesis
    using cp sf by (auto simp: c_def Let_def m2_def)
qed

section \<open>The editor\<close>

lemma deref_live: "deref w p = Some x \<Longrightarrow> p < length (heap w)"
  by (simp add: deref_def split: if_splits)

lemma deref_store:
  "p < length (heap w) \<Longrightarrow> deref (store w p x) q = (if q = p then Some x else deref w q)"
  by (simp add: deref_def store_def)

lemma deref_SkNEW:
  "deref (snd (SkNEW w)) q = (if q = length (heap w) then Some SkPathRef_ctor else deref w q)"
  by (auto simp: deref_def SkNEW_def nth_append)

lemma heap_store_length: "length (heap (store w p x)) = length (heap w)"
  by (simp add: store_def)

lemma unref_shared:
  assumes "deref w p = Some x" "fRefCnt x \<noteq> 1"
  shows "unref w p = store w p (x\<lparr>fRefCnt := fRefCnt x - 1\<rparr>)"
  using assms by (simp add: unref_def)

lemma copy_regions:
  assumes wf: "well_formed src"
    and b: "block c = point_bytes src @ replicate n None @ verb_bytes src"
    and c: "fVerbCnt c = fVerbCnt src" "fPointCnt c = fPointCnt src"
  shows "verb_bytes c = verb_bytes src" "point_bytes c = point_bytes src"
proof -
  note rg = wf_regions [OF wf] and ns = wf_nat_sint [OF wf]
  show "verb_bytes c = verb_bytes src"
    by (simp add: verb_bytes_def [of c] b c ns rg(3,4))
  show "point_bytes c = point_bytes src"
    by (simp add: point_bytes_def [of c] b c ns rg(3,4))
qed

text \<open>
  Claim C1. For every well-formed storage \<open>obj\<close> at address \<open>a\<close> whose reference count is
  greater than 1 (handles A and B both hold \<open>a\<close>), constructing an \<^verbatim>\<open>Editor\<close> on handle A
  with reserve hints that are not negative (their default is 0) returns, and redirects A to
  a storage at an address where no object was before. The new storage has the verbs,
  points, counts and conic weights of \<open>obj\<close> and its bounds cache (the same dirty flag and,
  when the cache is clean, the same bounds and finiteness); its generation ID is 0 and its
  reference count 1. The storage at \<open>a\<close>, which B still holds, is \<open>obj\<close> with one reference
  less: its content and generation ID are unchanged. Every other object is untouched.
\<close>

theorem editor_copy_on_write:
  assumes live: "deref w a = Some obj" and wf: "well_formed obj"
    and shared: "1 <s fRefCnt obj" and nn: "0 \<le>s rv" "0 \<le>s rp"
  shows "\<exists>w' c. Editor_ctor w a rv rp = Some (w', length (heap w)) \<and>
           length (heap w) \<noteq> a \<and> deref w (length (heap w)) = None \<and>
           deref w' (length (heap w)) = Some c \<and>
           verb_bytes c = verb_bytes obj \<and> point_bytes c = point_bytes obj \<and>
           fVerbCnt c = fVerbCnt obj \<and> fPointCnt c = fPointCnt obj \<and>
           fConicWeights c = fConicWeights obj \<and>
           fBoundsIsDirty c = fBoundsIsDirty obj \<and>
           (\<not> fBoundsIsDirty obj \<longrightarrow> fBounds c = fBounds obj \<and> fIsFinite c = fIsFinite obj) \<and>
           fGenerationID c = 0 \<and> fRefCnt c = 1 \<and>
           deref w' a = Some (obj\<lparr>fRefCnt := fRefCnt obj - 1\<rparr>) \<and>
           (\<forall>p. p \<noteq> a \<and> p \<noteq> length (heap w) \<longrightarrow> deref w' p = deref w p)"
proof -
  define n where "n = length (heap w)"
  have la: "a < n" unfolding n_def using live by (rule deref_live)
  have nu: "\<not> unique obj" using shared by (auto simp: unique_def word_sless_alt)
  then have r1: "fRefCnt obj \<noteq> 1" by (simp add: unique_def)
  from copy_fresh [OF wf nn] obtain c0 k where
    c0: "copy SkPathRef_ctor obj rv rp = Some c0"
      "block c0 = point_bytes obj @ replicate k None @ verb_bytes obj"
      "fVerbCnt c0 = fVerbCnt obj" "fPointCnt c0 = fPointCnt obj"
      "fConicWeights c0 = fConicWeights obj"
      "fBoundsIsDirty c0 = fBoundsIsDirty obj"
      "\<not> fBoundsIsDirty obj \<longrightarrow> fBounds c0 = fBounds obj \<and> fIsFinite c0 = fIsFinite obj"
      "fRefCnt c0 = 1"
    by blast
  define w1 where "w1 = snd (SkNEW w)"
  define w2 where "w2 = store w1 n c0"
  define w3 where "w3 = unref w2 a"
  define c where "c = c0\<lparr>fGenerationID := 0, fEditorsAttached := fEditorsAttached c0 + 1\<rparr>"
  define w4 where "w4 = store w3 n c"
  have new: "SkNEW w = (n, w1)" by (simp add: SkNEW_def n_def w1_def)
  have l1: "length (heap w1) = Suc n" by (simp add: w1_def SkNEW_def n_def)
  have d2: "\<And>q. deref w2 q = (if q = n then Some c0 else deref w q)"
    unfolding w2_def using l1 by (simp add: deref_store w1_def deref_SkNEW n_def)
  have d2a: "deref w2 a = Some obj" using la live by (simp add: d2)
  have w3': "w3 = store w2 a (obj\<lparr>fRefCnt := fRefCnt obj - 1\<rparr>)"
    unfolding w3_def using d2a r1 by (rule unref_shared)
  have l2: "length (heap w2) = Suc n" by (simp add: w2_def heap_store_length l1)
  have d3: "\<And>q. deref w3 q = (if q = a then Some (obj\<lparr>fRefCnt := fRefCnt obj - 1\<rparr>)
                                else if q = n then Some c0 else deref w q)"
    unfolding w3' using la l2 by (simp add: deref_store d2)
  have l3: "length (heap w3) = Suc n" by (simp add: w3' heap_store_length l2)
  have d4: "\<And>q. deref w4 q = (if q = n then Some c
                                else if q = a then Some (obj\<lparr>fRefCnt := fRefCnt obj - 1\<rparr>)
                                else deref w q)"
    unfolding w4_def using l3 by (simp add: deref_store d3)
  have d3n: "deref w3 n = Some c0" using la by (simp add: d3)
  have ed: "Editor_ctor w a rv rp = Some (w4, n)"
    by (simp add: Editor_ctor_def live nu new c0(1) w2_def [symmetric] w3_def [symmetric] d3n
        c_def [symmetric] w4_def [symmetric])
  have fresh: "deref w n = None" by (simp add: deref_def n_def)
  note cr = copy_regions [OF wf c0(2,3,4)]
  have cf: "verb_bytes c = verb_bytes obj" "point_bytes c = point_bytes obj"
    using cr by (simp_all add: c_def verb_bytes_def point_bytes_def block_def)
  show ?thesis
    apply (rule exI [of _ w4])
    apply (rule exI [of _ c])
    using ed la fresh cf c0 by (simp add: d4 n_def [symmetric]) (simp add: c_def)
qed


lemma wf_frame:
  "well_formed (s\<lparr>fRefCnt := r\<rparr>) = well_formed s"
  "well_formed (s\<lparr>fGenerationID := g\<rparr>) = well_formed s"
  "well_formed (s\<lparr>fEditorsAttached := e\<rparr>) = well_formed s"
  by (simp_all add: well_formed_def validate_def size_equation_def currSize_def block_def)

lemma shared_path_wf: "well_formed shared_path"
  using sample_path_wf by (simp add: shared_path_def wf_frame)

lemma shared_path_regions:
  "verb_bytes shared_path = [Some 1, Some 0]"
  "point_bytes shared_path = map Some [1, 2, 3, 4, 5, 6, 7, 8]"
  by (simp_all add: verb_bytes_def point_bytes_def shared_path_def block_def sample_path_def
      SkPathRef_ctor_def)

theorem editor_copy_on_write_witness:
  "deref shared_world 0 = Some shared_path \<and> well_formed shared_path \<and>
   1 <s fRefCnt shared_path \<and> 0 \<le>s (0::int32) \<and>
   (\<exists>w' c. Editor_ctor shared_world 0 0 0 = Some (w', 1) \<and>
      deref w' 1 = Some c \<and>
      verb_bytes c = [Some 1, Some 0] \<and>
      point_bytes c = map Some [1, 2, 3, 4, 5, 6, 7, 8] \<and>
      fGenerationID c = 0 \<and>
      deref w' 0 = Some (shared_path\<lparr>fRefCnt := 1\<rparr>) \<and>
      fGenerationID shared_path = 7)"
proof -
  have live: "deref shared_world 0 = Some shared_path"
    by (simp add: deref_def shared_world_def)
  have sh: "1 <s fRefCnt shared_path" by (simp add: shared_path_def word_sless_alt)
  have z: "0 \<le>s (0::int32)" by (simp add: word_sle_eq)
  have l: "length (heap shared_world) = 1" by (simp add: shared_world_def)
  have r: "fRefCnt shared_path - 1 = 1" "fGenerationID shared_path = 7"
    by (simp_all add: shared_path_def)
  from editor_copy_on_write [OF live shared_path_wf sh z z]
  show ?thesis
    using live shared_path_wf sh z
    by (simp add: l shared_path_regions r) blast
qed

lemma two_handles:
  "CreateEmpty world0 = (\<lparr>heap = [Some (SkPathRef_ctor\<lparr>fRefCnt := 2\<rparr>)],
                           gPathRefGenerationID = 0, gEmptyPathRef = Some 0\<rparr>, 0)"
  "CreateEmpty \<lparr>heap = [Some (SkPathRef_ctor\<lparr>fRefCnt := 2\<rparr>)],
                           gPathRefGenerationID = 0, gEmptyPathRef = Some 0\<rparr>
     = (\<lparr>heap = [Some (SkPathRef_ctor\<lparr>fRefCnt := 3\<rparr>)],
                           gPathRefGenerationID = 0, gEmptyPathRef = Some 0\<rparr>, 0)"
  by (simp_all add: CreateEmpty_def world0_def SkNEW_def ref_def deref_def store_def
      SkPathRef_ctor_def)

text \<open>
  Claim C2 says that the allocation-size equation holds after every operation. It does not
  after this one: two handles share the empty storage (\<^verbatim>\<open>CreateEmpty\<close>, twice), and an
  \<^verbatim>\<open>Editor\<close> is constructed on one of them with \<^verbatim>\<open>incReserveVerbs = -1\<close>. The editor's
  storage is a new one that \<^verbatim>\<open>copy\<close> sized with \<^verbatim>\<open>resetToSize(0, 0, 0, -1, 0)\<close>: there
  \<open>minSize\<close> is \<open>2^64 - 1\<close>, the test of line 434 fails, and the reuse branch (line 448) sets
  \<open>fFreeSpace = currSize() - minSize = 1\<close> on a storage that has no block. So
  \<open>currSize() = 0\<close> and \<open>freeSpace + |verbs| + 8 * |points| = 1\<close>. The reuse branch
  subtracts the reserve from the free space; claim C8 is about the same line.
\<close>

theorem editor_negative_reserve:
  "\<exists>w e w1 h w2 h' x.
     CreateEmpty world0 = (w, e) \<and> CreateEmpty w = (w1, h) \<and>
     Editor_ctor w1 h (- 1) 0 = Some (w2, h') \<and> deref w2 h' = Some x \<and>
     fPoints x = None \<and> currSize x = 0 \<and> fFreeSpace x = 1 \<and> fVerbCnt x = 0 \<and>
     fPointCnt x = 0 \<and> \<not> size_equation x"
proof -
  define w1 where "w1 = \<lparr>heap = [Some (SkPathRef_ctor\<lparr>fRefCnt := 3\<rparr>)],
                           gPathRefGenerationID = 0, gEmptyPathRef = Some 0\<rparr>"
  have c: "copy SkPathRef_ctor (SkPathRef_ctor\<lparr>fRefCnt := 3\<rparr>) (- 1) 0
     = Some (SkPathRef_ctor\<lparr>fFreeSpace := 1\<rparr>)"
    by (simp add: copy_def resetToSize_def Let_def SkPathRef_ctor_def currSize_def block_def
        sizeof_uint8_def sizeof_SkPoint_def word_sle_eq word_sless_alt word_le_nat_alt
        setCount_def mem_read_def mem_write_def verbsMemBegin_def set_block_def)
  have e: "Editor_ctor w1 0 (- 1) 0
     = Some (\<lparr>heap = [Some (SkPathRef_ctor\<lparr>fRefCnt := 2\<rparr>),
                       Some (SkPathRef_ctor\<lparr>fFreeSpace := 1, fGenerationID := 0,
                                           fEditorsAttached := 1\<rparr>)],
              gPathRefGenerationID = 0, gEmptyPathRef = Some 0\<rparr>, 1)"
    by (simp add: Editor_ctor_def w1_def deref_def unique_def SkNEW_def c store_def unref_def)
      (simp add: SkPathRef_ctor_def)
  show ?thesis
    apply (intro exI conjI)
            apply (rule two_handles(1))
           apply (rule two_handles(2))
          apply (rule e [unfolded w1_def])
         apply (simp add: deref_def)
        apply (simp_all add: SkPathRef_ctor_def currSize_def size_equation_def)
    done
qed

section \<open>The transformed copy\<close>

lemma set_block_fields:
  "fBounds (set_block d m) = fBounds d" "fIsFinite (set_block d m) = fIsFinite d"
  "fBoundsIsDirty (set_block d m) = fBoundsIsDirty d" "fPointCnt (set_block d m) = fPointCnt d"
  "fVerbCnt (set_block d m) = fVerbCnt d" "fFreeSpace (set_block d m) = fFreeSpace d"
  "fConicWeights (set_block d m) = fConicWeights d"
  "fGenerationID (set_block d m) = fGenerationID d" "fRefCnt (set_block d m) = fRefCnt d"
  "fEditorsAttached (set_block d m) = fEditorsAttached d"
  by (simp_all add: set_block_def split: option.splits)

lemma transform_points_Some:
  assumes "transform_points w dst src M = Some w2"
  shows "\<exists>s d ps m. deref w src = Some s \<and> deref w dst = Some d \<and>
           mem_read (block s) 0 (unat (scast (fPointCnt s) * sizeof_SkPoint)) = Some ps \<and>
           mem_write (block d) 0 (mapPoints M ps) = Some m \<and>
           w2 = store w dst (set_block d m)"
  using assms by (auto simp: transform_points_def split: option.splits)

lemma transform_bounds_Some:
  assumes tb: "transform_bounds X w dst src M cx = Some w3" and src: "deref w src = Some s"
  shows "\<exists>d d'. deref w dst = Some d \<and> w3 = store w dst d' \<and>
           d' = d\<lparr>fBounds := fBounds d', fBoundsIsDirty := fBoundsIsDirty d',
                  fIsFinite := fIsFinite d'\<rparr> \<and>
           (if cx then
              \<not> fBoundsIsDirty d' \<and>
              (case fIsFinite s of
                 None \<Rightarrow> False
               | Some True \<Rightarrow>
                   (\<exists>b. fBounds s = Some b \<and>
                        (if SkRect_isFinite X (mapRect M b)
                         then fBounds d' = Some (mapRect M b) \<and> fIsFinite d' = Some True
                         else fBounds d' = Some setEmpty \<and> fIsFinite d' = Some False))
               | Some False \<Rightarrow> fBounds d' = Some setEmpty \<and> fIsFinite d' = Some False)
            else fBoundsIsDirty d')"
proof -
  from tb obtain d where d: "deref w dst = Some d"
    by (auto simp: transform_bounds_def split: option.splits)
  have l: "dst < length (heap w)" using d by (rule deref_live)
  show ?thesis
  proof (cases cx)
    case False
    with tb d show ?thesis
      by (auto simp: transform_bounds_def intro!: exI [of _ "d\<lparr>fBoundsIsDirty := True\<rparr>"])
  next
    case True
    define s1 where "s1 = (if src = dst then d\<lparr>fBoundsIsDirty := False\<rparr> else s)"
    have s1: "deref (store w dst (d\<lparr>fBoundsIsDirty := False\<rparr>)) src = Some s1"
      using l src by (simp add: deref_store s1_def)
    have same: "fIsFinite s1 = fIsFinite s" "fBounds s1 = fBounds s"
      using src d by (auto simp: s1_def)
    have l1: "dst < length (heap (store w dst (d\<lparr>fBoundsIsDirty := False\<rparr>)))"
      using l by (simp add: heap_store_length)
    have ss: "\<And>x y. store (store w dst x) dst y = store w dst y" by (simp add: store_def)
    have tb': "(case fIsFinite s of
                  None \<Rightarrow> None
                | Some True \<Rightarrow>
                    (case fBounds s of
                       None \<Rightarrow> None
                     | Some b \<Rightarrow>
                         if SkRect_isFinite X (mapRect M b)
                         then Some (store w dst (d\<lparr>fBoundsIsDirty := False,
                                      fBounds := Some (mapRect M b), fIsFinite := Some True\<rparr>))
                         else Some (store w dst (d\<lparr>fBoundsIsDirty := False,
                                      fIsFinite := Some False, fBounds := Some setEmpty\<rparr>)))
                | Some False \<Rightarrow>
                    Some (store w dst (d\<lparr>fBoundsIsDirty := False, fIsFinite := Some False,
                                        fBounds := Some setEmpty\<rparr>))) = Some w3"
      using tb True d s1 same
      by (auto simp: transform_bounds_def Let_def ss split: option.splits bool.splits if_splits)
        metis+
    show ?thesis
    proof (cases "fIsFinite s")
      case None
      with tb' show ?thesis by simp
    next
      case (Some f)
      show ?thesis
      proof (cases f)
        case False
        with Some tb' have "w3 = store w dst (d\<lparr>fBoundsIsDirty := False,
            fIsFinite := Some False, fBounds := Some setEmpty\<rparr>)" by simp
        with d True Some False show ?thesis
          by (intro exI [of _ d] exI [of _ "d\<lparr>fBoundsIsDirty := False,
            fIsFinite := Some False, fBounds := Some setEmpty\<rparr>"]) simp
      next
        case fin: True
        show ?thesis
        proof (cases "fBounds s")
          case None
          with Some fin tb' show ?thesis by simp
        next
          case (Some b)
          show ?thesis
          proof (cases "SkRect_isFinite X (mapRect M b)")
            case True
            with Some \<open>fIsFinite s = Some f\<close> fin tb'
            have "w3 = store w dst (d\<lparr>fBoundsIsDirty := False,
                fBounds := Some (mapRect M b), fIsFinite := Some True\<rparr>)" by simp
            with d \<open>cx\<close> Some \<open>fIsFinite s = Some f\<close> fin True show ?thesis
              by (intro exI [of _ d] exI [of _ "d\<lparr>fBoundsIsDirty := False,
                fBounds := Some (mapRect M b), fIsFinite := Some True\<rparr>"]) simp
          next
            case False
            with Some \<open>fIsFinite s = Some f\<close> fin tb'
            have "w3 = store w dst (d\<lparr>fBoundsIsDirty := False,
                fIsFinite := Some False, fBounds := Some setEmpty\<rparr>)" by simp
            with d \<open>cx\<close> Some \<open>fIsFinite s = Some f\<close> fin False show ?thesis
              by (intro exI [of _ d] exI [of _ "d\<lparr>fBoundsIsDirty := False,
                fIsFinite := Some False, fBounds := Some setEmpty\<rparr>"]) simp
          qed
        qed
      qed
    qed
  qed
qed


lemma CreateTransformedCopy_steps:
  assumes "\<not> isIdentity M" and "CreateTransformedCopy X w dst src M = Some (w', dst')"
  shows "\<exists>d0 w1 s1 w2. deref w dst = Some d0 \<and>
           (if unique d0 then w1 = w \<and> dst' = dst else fresh_dst w dst src = Some (w1, dst')) \<and>
           deref w1 src = Some s1 \<and>
           transform_points w1 dst' src M = Some w2 \<and>
           transform_bounds X w2 dst' src M
             (\<not> fBoundsIsDirty s1 \<and> rectStaysRect M \<and> 1 <s fPointCnt s1) = Some w'"
  using assms
  by (auto simp: CreateTransformedCopy_def Let_def split: option.splits if_splits)

lemma fresh_dst_Some:
  assumes f: "fresh_dst w dst src = Some (w1, p)" and d0: "deref w dst = Some d0"
    and nu: "\<not> unique d0" and src: "deref w src = Some s"
  shows "p = length (heap w)"
    and "\<exists>d m vs. deref w1 src = Some (if src = dst then s\<lparr>fRefCnt := fRefCnt s - 1\<rparr> else s) \<and>
           resetToSize SkPathRef_ctor (fVerbCnt s) (fPointCnt s)
             (of_nat (length (fConicWeights s))) 0 0 = Some d \<and>
           mem_read (block s) (verbsMemBegin s) (unat (scast (fVerbCnt s) * sizeof_uint8))
             = Some vs \<and>
           mem_write (block d) (verbsMemBegin d) vs = Some m \<and>
           deref w1 p = Some ((set_block d m)\<lparr>fConicWeights := fConicWeights s\<rparr>) \<and>
           (\<forall>q. q \<noteq> p \<and> q \<noteq> dst \<longrightarrow> deref w1 q = deref w q)"
proof -
  define n where "n = length (heap w)"
  define wa where "wa = snd (SkNEW w)"
  have new: "SkNEW w = (n, wa)" by (simp add: SkNEW_def n_def wa_def)
  have ld: "dst < n" unfolding n_def using d0 by (rule deref_live)
  have ls: "src < n" unfolding n_def using src by (rule deref_live)
  have la: "length (heap wa) = Suc n" by (simp add: wa_def SkNEW_def n_def)
  have da: "\<And>q. deref wa q = (if q = n then Some SkPathRef_ctor else deref w q)"
    by (simp add: wa_def deref_SkNEW n_def)
  have "deref wa dst = Some d0" using ld d0 by (simp add: da)
  moreover have "fRefCnt d0 \<noteq> 1" using nu by (simp add: unique_def)
  ultimately have u: "unref wa dst = store wa dst (d0\<lparr>fRefCnt := fRefCnt d0 - 1\<rparr>)"
    by (rule unref_shared)
  define wb where "wb = unref wa dst"
  have db: "\<And>q. deref wb q = (if q = dst then Some (d0\<lparr>fRefCnt := fRefCnt d0 - 1\<rparr>)
                               else if q = n then Some SkPathRef_ctor else deref w q)"
    unfolding wb_def u using ld la by (simp add: deref_store da)
  have lb: "length (heap wb) = Suc n" by (simp add: wb_def u heap_store_length la)
  define s1 where "s1 = (if src = dst then s\<lparr>fRefCnt := fRefCnt s - 1\<rparr> else s)"
  have sd: "src = dst \<Longrightarrow> d0 = s" using d0 src by simp
  have s1: "deref wb src = Some s1" using ls src sd by (auto simp: db s1_def)
  have fs: "fVerbCnt s1 = fVerbCnt s" "fPointCnt s1 = fPointCnt s"
    "fConicWeights s1 = fConicWeights s" "block s1 = block s" "verbsMemBegin s1 = verbsMemBegin s"
    by (simp_all add: s1_def block_def verbsMemBegin_def currSize_def)
  have f': "(case resetToSize SkPathRef_ctor (fVerbCnt s) (fPointCnt s)
                       (of_nat (length (fConicWeights s))) 0 0 of
                  None \<Rightarrow> None
                | Some d \<Rightarrow>
                    (case mem_read (block s) (verbsMemBegin s)
                            (unat (scast (fVerbCnt s) * sizeof_uint8)) of
                       None \<Rightarrow> None
                     | Some vs \<Rightarrow>
                         (case mem_write (block d) (verbsMemBegin d) vs of
                            None \<Rightarrow> None
                          | Some m \<Rightarrow>
                              Some (store wb n ((set_block d m)
                                                  \<lparr>fConicWeights := fConicWeights s\<rparr>),
                                    n)))) = Some (w1, p)"
    using f unfolding fresh_dst_def new
    by (simp only: prod.case Let_def wb_def [symmetric] s1 option.case fs)
  then obtain d where r1: "resetToSize SkPathRef_ctor (fVerbCnt s) (fPointCnt s)
             (of_nat (length (fConicWeights s))) 0 0 = Some d"
    and f2: "(case mem_read (block s) (verbsMemBegin s)
                            (unat (scast (fVerbCnt s) * sizeof_uint8)) of
                       None \<Rightarrow> None
                     | Some vs \<Rightarrow>
                         (case mem_write (block d) (verbsMemBegin d) vs of
                            None \<Rightarrow> None
                          | Some m \<Rightarrow>
                              Some (store wb n ((set_block d m)
                                                  \<lparr>fConicWeights := fConicWeights s\<rparr>),
                                    n))) = Some (w1, p)"
    by (cases "resetToSize SkPathRef_ctor (fVerbCnt s) (fPointCnt s)
             (of_nat (length (fConicWeights s))) 0 0") simp_all
  from f2 obtain vs where r2: "mem_read (block s) (verbsMemBegin s)
                            (unat (scast (fVerbCnt s) * sizeof_uint8)) = Some vs"
    and f3: "(case mem_write (block d) (verbsMemBegin d) vs of
                            None \<Rightarrow> None
                          | Some m \<Rightarrow>
                              Some (store wb n ((set_block d m)
                                                  \<lparr>fConicWeights := fConicWeights s\<rparr>),
                                    n)) = Some (w1, p)"
    by (cases "mem_read (block s) (verbsMemBegin s)
                            (unat (scast (fVerbCnt s) * sizeof_uint8))") simp_all
  have "\<exists>m. mem_write (block d) (verbsMemBegin d) vs = Some m \<and>
      Some (store wb n ((set_block d m)\<lparr>fConicWeights := fConicWeights s\<rparr>), n)
               = Some (w1, p)"
  proof (cases "mem_write (block d) (verbsMemBegin d) vs")
    case None
    with f3 show ?thesis by simp
  next
    case (Some m)
    with f3 show ?thesis by (simp only: option.case) blast
  qed
  then obtain m where r3: "mem_write (block d) (verbsMemBegin d) vs = Some m"
    and r4': "Some (store wb n ((set_block d m)\<lparr>fConicWeights := fConicWeights s\<rparr>), n)
               = Some (w1, p)"
    by blast
  from r4' have r4: "w1 = store wb n ((set_block d m)\<lparr>fConicWeights := fConicWeights s\<rparr>)"
    and r5: "p = n" by auto
  note r = r1 r2 r3 r4 r5
  show "p = length (heap w)" using r(5) by (simp add: n_def)
  have d1: "\<And>q. deref w1 q = (if q = n then Some ((set_block d m)\<lparr>fConicWeights := fConicWeights s\<rparr>)
                               else deref wb q)"
    unfolding r(4) using lb by (simp add: deref_store)
  have ds: "deref w1 src = Some s1" using ls s1 by (simp add: d1)
  have dn: "deref w1 n = Some ((set_block d m)\<lparr>fConicWeights := fConicWeights s\<rparr>)"
    by (simp add: d1)
  show "\<exists>d m vs. deref w1 src = Some (if src = dst then s\<lparr>fRefCnt := fRefCnt s - 1\<rparr> else s) \<and>
           resetToSize SkPathRef_ctor (fVerbCnt s) (fPointCnt s)
             (of_nat (length (fConicWeights s))) 0 0 = Some d \<and>
           mem_read (block s) (verbsMemBegin s) (unat (scast (fVerbCnt s) * sizeof_uint8))
             = Some vs \<and>
           mem_write (block d) (verbsMemBegin d) vs = Some m \<and>
           deref w1 p = Some ((set_block d m)\<lparr>fConicWeights := fConicWeights s\<rparr>) \<and>
           (\<forall>q. q \<noteq> p \<and> q \<noteq> dst \<longrightarrow> deref w1 q = deref w q)"
    apply (rule exI [of _ d], rule exI [of _ m], rule exI [of _ vs])
    using r(1,2,3,5) ds dn by (simp add: s1_def [symmetric]) (simp add: d1 db)
qed


lemma CreateTransformedCopy_src:
  assumes ni: "\<not> isIdentity M"
    and res: "CreateTransformedCopy X w dst src M = Some (w', dst')"
    and src: "deref w src = Some s"
  shows "\<exists>w1 s1 w2 s2 d m.
           deref w1 src = Some s1 \<and>
           fBoundsIsDirty s1 = fBoundsIsDirty s \<and> fPointCnt s1 = fPointCnt s \<and>
           block s1 = block s \<and>
           deref w1 dst' = Some d \<and>
           mem_write (block d) 0
             (mapPoints M (the (mem_read (block s) 0
                (unat (scast (fPointCnt s) * sizeof_SkPoint))))) = Some m \<and>
           mem_read (block s) 0 (unat (scast (fPointCnt s) * sizeof_SkPoint)) \<noteq> None \<and>
           w2 = store w1 dst' (set_block d m) \<and>
           deref w2 src = Some s2 \<and>
           fIsFinite s2 = fIsFinite s \<and> fBounds s2 = fBounds s \<and>
           (\<exists>d0. deref w dst = Some d0 \<and>
              (if unique d0 then w1 = w \<and> dst' = dst else fresh_dst w dst src = Some (w1, dst'))) \<and>
           transform_bounds X w2 dst' src M
             (\<not> fBoundsIsDirty s \<and> rectStaysRect M \<and> 1 <s fPointCnt s) = Some w'"
proof -
  from CreateTransformedCopy_steps [OF ni res] obtain d0 w1 s1 w2 where
    st: "deref w dst = Some d0"
      "if unique d0 then w1 = w \<and> dst' = dst else fresh_dst w dst src = Some (w1, dst')"
      "deref w1 src = Some s1"
      "transform_points w1 dst' src M = Some w2"
      "transform_bounds X w2 dst' src M
             (\<not> fBoundsIsDirty s1 \<and> rectStaysRect M \<and> 1 <s fPointCnt s1) = Some w'"
    by blast
  have s1: "s1 = s \<or> s1 = s\<lparr>fRefCnt := fRefCnt s - 1\<rparr>"
  proof (cases "unique d0")
    case True
    with st(2,3) src show ?thesis by simp
  next
    case False
    with st(2) have "fresh_dst w dst src = Some (w1, dst')" by simp
    from fresh_dst_Some(2) [OF this st(1) False src] st(3) show ?thesis
      by (auto split: if_splits)
  qed
  then have c1: "fBoundsIsDirty s1 = fBoundsIsDirty s" "fPointCnt s1 = fPointCnt s"
    "block s1 = block s" "fIsFinite s1 = fIsFinite s" "fBounds s1 = fBounds s"
    by (auto simp: block_def)
  from transform_points_Some [OF st(4)] st(3) obtain d ps m where
    tp: "deref w1 dst' = Some d"
      "mem_read (block s1) 0 (unat (scast (fPointCnt s1) * sizeof_SkPoint)) = Some ps"
      "mem_write (block d) 0 (mapPoints M ps) = Some m"
      "w2 = store w1 dst' (set_block d m)"
    by auto
  have l: "dst' < length (heap w1)" using tp(1) by (rule deref_live)
  define s2 where "s2 = (if src = dst' then set_block d m else s1)"
  have d2: "deref w2 src = Some s2"
    unfolding tp(4) using l st(3) by (simp add: deref_store s2_def)
  have "src = dst' \<Longrightarrow> d = s1" using tp(1) st(3) by simp
  then have c2: "fIsFinite s2 = fIsFinite s" "fBounds s2 = fBounds s"
    using c1 by (auto simp: s2_def set_block_fields)
  show ?thesis
    apply (rule exI [of _ w1], rule exI [of _ s1], rule exI [of _ w2], rule exI [of _ s2],
        rule exI [of _ d], rule exI [of _ m])
    using st tp d2 c1 c2 by simp
qed

text \<open>
  Claim C6. For every call to \<^verbatim>\<open>CreateTransformedCopy\<close> with a matrix that is not the
  identity, on a source \<open>s\<close>, that returns: if the bounds of \<open>s\<close> are not dirty and the
  matrix preserves rectangles and \<open>s\<close> has more than one point, then the bounds of the
  destination are not dirty and, if \<open>s\<close> was finite, they are the bounds of \<open>s\<close> mapped
  through the matrix with \<^verbatim>\<open>fIsFinite\<close> true, or, when the mapped rectangle is not
  finite, the empty rectangle with \<^verbatim>\<open>fIsFinite\<close> false; if \<open>s\<close> was not finite they are the
  empty rectangle with \<^verbatim>\<open>fIsFinite\<close> false. In every other case the bounds of the
  destination are dirty. \<open>s\<close> is the source before the call; the destination may be the
  source itself.
\<close>

theorem transform_bounds_fast_path:
  assumes ni: "\<not> isIdentity M"
    and res: "CreateTransformedCopy X w dst src M = Some (w', dst')"
    and src: "deref w src = Some s"
  shows "\<exists>d'. deref w' dst' = Some d' \<and>
           (if \<not> fBoundsIsDirty s \<and> rectStaysRect M \<and> 1 <s fPointCnt s then
              \<not> fBoundsIsDirty d' \<and>
              (case fIsFinite s of
                 None \<Rightarrow> False
               | Some True \<Rightarrow>
                   (\<exists>b. fBounds s = Some b \<and>
                        (if SkRect_isFinite X (mapRect M b)
                         then fBounds d' = Some (mapRect M b) \<and> fIsFinite d' = Some True
                         else fBounds d' = Some setEmpty \<and> fIsFinite d' = Some False))
               | Some False \<Rightarrow> fBounds d' = Some setEmpty \<and> fIsFinite d' = Some False)
            else fBoundsIsDirty d')"
proof -
  from CreateTransformedCopy_src [OF ni res src] obtain w2 s2 where
    a: "deref w2 src = Some s2" "fIsFinite s2 = fIsFinite s" "fBounds s2 = fBounds s"
      "transform_bounds X w2 dst' src M
             (\<not> fBoundsIsDirty s \<and> rectStaysRect M \<and> 1 <s fPointCnt s) = Some w'"
    by blast
  from transform_bounds_Some [OF a(4) a(1)] obtain d d' where
    b: "deref w2 dst' = Some d" "w' = store w2 dst' d'"
      "if \<not> fBoundsIsDirty s \<and> rectStaysRect M \<and> 1 <s fPointCnt s then
              \<not> fBoundsIsDirty d' \<and>
              (case fIsFinite s2 of
                 None \<Rightarrow> False
               | Some True \<Rightarrow>
                   (\<exists>b. fBounds s2 = Some b \<and>
                        (if SkRect_isFinite X (mapRect M b)
                         then fBounds d' = Some (mapRect M b) \<and> fIsFinite d' = Some True
                         else fBounds d' = Some setEmpty \<and> fIsFinite d' = Some False))
               | Some False \<Rightarrow> fBounds d' = Some setEmpty \<and> fIsFinite d' = Some False)
            else fBoundsIsDirty d'"
    by blast
  have "dst' < length (heap w2)" using b(1) by (rule deref_live)
  then have "deref w' dst' = Some d'" by (simp add: b(2) deref_store)
  with b(3) show ?thesis unfolding a(2,3) by blast
qed

lemma segment_live: "deref segment_world 0 = Some segment_path"
  by (simp add: deref_def segment_world_def)

lemma segment_block:
  "block segment_path = map Some [0, 0, 0x80, 0x3F, 0, 0, 0, 0x40,
                                   0, 0, 0x40, 0x40, 0, 0, 0x80, 0x40]
                         @ replicate 238 None @ [Some 1, Some 0]"
  by (simp add: segment_path_def SkPathRef_ctor_def block_def)

lemma segment_fields:
  "fVerbCnt segment_path = 2" "fPointCnt segment_path = 2" "fFreeSpace segment_path = 238"
  "currSize segment_path = 256" "fPoints segment_path \<noteq> None" "fRefCnt segment_path = 1"
  "\<not> fBoundsIsDirty segment_path" "fIsFinite segment_path = Some True"
  "fBounds segment_path = Some \<lparr>fLeft = 0x3F800000, fTop = 0x40000000,
                         fRight = 0x40400000, fBottom = 0x40800000\<rparr>"
  by (simp_all add: segment_path_def SkPathRef_ctor_def currSize_def)

lemma segment_wf: "well_formed segment_path"
  by (simp add: well_formed_def validate_def size_equation_def segment_block
      segment_fields sizeof_SkPoint_def sizeof_uint8_def word_sle_eq)

lemma segment_points_read:
  "mem_read (block segment_path) 0 (unat (scast (fPointCnt segment_path) * sizeof_SkPoint))
     = Some [Some 0, Some 0, Some 0x80, Some 0x3F, Some 0, Some 0, Some 0, Some 0x40,
             Some 0, Some 0, Some 0x40, Some 0x40, Some 0, Some 0, Some 0x80, Some 0x40]"
  by (simp add: mem_read_def segment_block segment_fields sizeof_SkPoint_def)

lemma segment_points_write:
  "mem_write (block segment_path) 0
     (mapPoints reflection
        [Some 0, Some 0, Some 0x80, Some 0x3F, Some 0, Some 0, Some 0, Some 0x40,
         Some 0, Some 0, Some 0x40, Some 0x40, Some 0, Some 0, Some 0x80, Some 0x40])
     = Some (map Some [0, 0, 0x80, 0xBF, 0, 0, 0, 0xC0, 0, 0, 0x40, 0xC0, 0, 0, 0x80, 0xC0]
             @ replicate 238 None @ [Some 1, Some 0])"
  by (simp add: mem_write_def segment_block reflection_def)

lemma segment_transform_points:
  "transform_points segment_world 0 0 reflection = Some (store segment_world 0 reflected)"
  by (simp add: transform_points_def segment_live segment_points_read segment_points_write
      reflected_def)

lemma segment_transformed:
  "\<exists>w'. CreateTransformedCopy sample_collaborators segment_world 0 0 reflection = Some (w', 0)"
proof -
  have d2: "deref (store segment_world 0 reflected) 0 = Some reflected"
    by (simp add: deref_def store_def segment_world_def)
  have l: "length (heap segment_world) = 1" by (simp add: segment_world_def)
  have f: "fIsFinite reflected = Some True"
    "fBounds reflected = Some \<lparr>fLeft = 0x3F800000, fTop = 0x40000000,
                         fRight = 0x40400000, fBottom = 0x40800000\<rparr>"
    by (simp_all add: reflected_def set_block_fields segment_fields)
  have "\<exists>w3. transform_bounds sample_collaborators (store segment_world 0 reflected) 0 0
           reflection True = Some w3"
    by (simp add: transform_bounds_def d2 Let_def deref_store heap_store_length l f)
  then obtain w3 where "transform_bounds sample_collaborators (store segment_world 0 reflected) 0 0
           reflection True = Some w3" by blast
  then show ?thesis
    by (simp add: CreateTransformedCopy_def reflection_def [THEN arg_cong, of isIdentity]
        reflection_def [THEN arg_cong, of rectStaysRect]
        segment_live unique_def segment_fields word_sless_alt segment_transform_points Let_def)
qed


theorem transform_bounds_fast_path_witness:
  "\<not> isIdentity reflection \<and> deref segment_world 0 = Some segment_path \<and>
   \<not> fBoundsIsDirty segment_path \<and> rectStaysRect reflection \<and> 1 <s fPointCnt segment_path \<and>
   (\<exists>w' d'. CreateTransformedCopy sample_collaborators segment_world 0 0 reflection
                = Some (w', 0) \<and>
      deref w' 0 = Some d' \<and> \<not> fBoundsIsDirty d' \<and>
      fBounds d' = Some \<lparr>fLeft = 0xC0400000, fTop = 0xC0800000,
                          fRight = 0xBF800000, fBottom = 0xC0000000\<rparr> \<and>
      fIsFinite d' = Some True)"
proof -
  have ni: "\<not> isIdentity reflection" and rs: "rectStaysRect reflection"
    by (simp_all add: reflection_def)
  have gt: "1 <s fPointCnt segment_path" by (simp add: segment_fields word_sless_alt)
  have mr: "mapRect reflection \<lparr>fLeft = 0x3F800000, fTop = 0x40000000,
                         fRight = 0x40400000, fBottom = 0x40800000\<rparr>
            = \<lparr>fLeft = 0xC0400000, fTop = 0xC0800000,
                          fRight = 0xBF800000, fBottom = 0xC0000000\<rparr>"
    by (simp add: reflection_def negate_scalar_def)
  have fin: "SkRect_isFinite sample_collaborators \<lparr>fLeft = 0xC0400000, fTop = 0xC0800000,
                          fRight = 0xBF800000, fBottom = 0xC0000000\<rparr>"
    by (simp add: sample_collaborators_def word_finite_def)
  from segment_transformed obtain w' where
    r: "CreateTransformedCopy sample_collaborators segment_world 0 0 reflection = Some (w', 0)"
    by blast
  from transform_bounds_fast_path [OF ni r segment_live]
  have "\<exists>d'. deref w' 0 = Some d' \<and> \<not> fBoundsIsDirty d' \<and>
      fBounds d' = Some \<lparr>fLeft = 0xC0400000, fTop = 0xC0800000,
                          fRight = 0xBF800000, fBottom = 0xC0000000\<rparr> \<and>
      fIsFinite d' = Some True"
    using rs gt by (simp add: segment_fields mr fin)
  with r ni rs gt segment_live segment_fields(7) show ?thesis by blast
qed





lemma mem_write_Some:
  "mem_write m off bs = Some m' \<Longrightarrow>
     m' = take off m @ bs @ drop (off + length bs) m \<and>
     (bs = [] \<or> off + length bs \<le> length m) \<and> length m' = length m"
  by (auto simp: mem_write_def split: if_splits)














text \<open>
  Without room in the destination the call has no result: the segment transformed into a
  new, empty, uniquely owned storage writes 16 bytes where there is no block.
\<close>

lemma transformed_copy_no_room:
  "CreateTransformedCopy sample_collaborators no_room_world 1 0 reflection = None"
proof -
  have a: "deref no_room_world 0 = Some segment_path"
    "deref no_room_world (Suc 0) = Some SkPathRef_ctor"
    by (simp_all add: deref_def no_room_world_def)
  have b: "block SkPathRef_ctor = []" "unique SkPathRef_ctor"
    by (simp_all add: block_def SkPathRef_ctor_def unique_def)
  have "transform_points no_room_world 1 0 reflection = None"
    by (simp add: transform_points_def a segment_points_read b mem_write_def reflection_def)
  then show ?thesis
    by (simp add: CreateTransformedCopy_def reflection_def [THEN arg_cong, of isIdentity] a b
        Let_def)
qed










section \<open>The comparison\<close>

lemma segment_verbs_read:
  "mem_read (block segment_path) (verbsMemBegin segment_path)
     (unat (scast (fVerbCnt segment_path) * sizeof_uint8)) = Some [Some 1, Some 0]"
  by (simp add: mem_read_def verbsMemBegin_def segment_block segment_fields sizeof_uint8_def)

lemma segment_genID: "genID segment_path 0 = (2, segment_path\<lparr>fGenerationID := 2\<rparr>, 2)"
proof -
  have "genID_loop (0::int32) = (2, 2)"
    by (subst genID_loop_step, simp add: kEmptyGenID_def word_sle_eq)
       (subst genID_loop_step, simp add: kEmptyGenID_def word_sle_eq)
  moreover have "fGenerationID segment_path = 0"
    by (simp add: segment_path_def)
  ultimately show ?thesis by (simp add: genID_def segment_fields)
qed

lemma twin_compared:
  "operator_eq rel twin_world 0 1 = Some (True, stamped_world)"
proof -
  have a: "deref twin_world 0 = Some segment_path" "deref twin_world (Suc 0) = Some segment_path"
    by (simp_all add: deref_def twin_world_def)
  have z: "fGenerationID segment_path = 0" by (simp add: segment_path_def)
  have g: "genID_at twin_world (Suc 0)
     = Some (2, \<lparr>heap = [Some segment_path, Some stamped],
                  gPathRefGenerationID = 2, gEmptyPathRef = None\<rparr>)"
    by (simp add: genID_at_def a)
       (simp add: twin_world_def segment_genID store_def stamped_def)
  have s: "set_genID \<lparr>heap = [Some segment_path, Some stamped],
                  gPathRefGenerationID = 2, gEmptyPathRef = None\<rparr> 0 2 = Some stamped_world"
    by (simp add: set_genID_def deref_def store_def stamped_world_def stamped_def)
  show ?thesis
    by (simp add: operator_eq_def a z memcmp_differs_def segment_verbs_read segment_points_read g s)
qed

lemma stamped_block: "block stamped = block segment_path"
  by (simp add: stamped_def block_def)

lemma stamped_fields:
  "fVerbCnt stamped = 2" "fPointCnt stamped = 2" "fRefCnt stamped = 1"
  "\<not> fBoundsIsDirty stamped" "fIsFinite stamped = Some True" "fGenerationID stamped = 2"
  "fConicWeights stamped = []" "verbsMemBegin stamped = verbsMemBegin segment_path"
  by (simp_all add: stamped_def segment_fields verbsMemBegin_def currSize_def)
     (simp_all add: segment_path_def SkPathRef_ctor_def)

lemma stamped_live:
  "deref stamped_world 0 = Some stamped" "deref stamped_world (Suc 0) = Some stamped"
  "length (heap stamped_world) = 2"
  by (simp_all add: deref_def stamped_world_def)

lemma stamped_turned:
  "CreateTransformedCopy sample_collaborators stamped_world 0 0 reflection
     = Some (turned_world, 0)"
proof -
  define d1 where "d1 = set_block stamped
     (map Some [0, 0, 0x80, 0xBF, 0, 0, 0, 0xC0, 0, 0, 0x40, 0xC0, 0, 0, 0x80, 0xC0]
             @ replicate 238 None @ [Some 1, Some 0])"
  have pr: "mem_read (block segment_path) 0 (unat (2 * sizeof_SkPoint :: size_t))
     = Some [Some 0, Some 0, Some 0x80, Some 0x3F, Some 0, Some 0, Some 0, Some 0x40,
             Some 0, Some 0, Some 0x40, Some 0x40, Some 0, Some 0, Some 0x80, Some 0x40]"
    by (simp add: mem_read_def segment_block sizeof_SkPoint_def)
  have tp: "transform_points stamped_world 0 0 reflection = Some (store stamped_world 0 d1)"
    by (simp add: transform_points_def stamped_live stamped_block stamped_fields
        pr segment_points_write d1_def)
  have d2: "deref (store stamped_world 0 d1) 0 = Some d1"
    by (simp add: deref_store stamped_live)
  have f: "fIsFinite d1 = Some True"
    "fBounds d1 = Some \<lparr>fLeft = 0x3F800000, fTop = 0x40000000,
                         fRight = 0x40400000, fBottom = 0x40800000\<rparr>"
    by (simp_all add: d1_def set_block_fields stamped_def segment_fields)
  have tb: "transform_bounds sample_collaborators (store stamped_world 0 d1) 0 0
           reflection True = Some turned_world"
    apply (simp add: transform_bounds_def d2 Let_def deref_store heap_store_length stamped_live f)
    apply (simp add: reflection_def sample_collaborators_def negate_scalar_def word_finite_def
       store_def turned_world_def stamped_world_def turned_def reflected_def d1_def set_block_def
       stamped_def segment_path_def SkPathRef_ctor_def)
    done
  then show ?thesis
    by (simp add: CreateTransformedCopy_def reflection_def [THEN arg_cong, of isIdentity]
        reflection_def [THEN arg_cong, of rectStaysRect]
        stamped_live unique_def stamped_fields word_sless_alt tp Let_def)
qed

lemma turned_block:
  "block turned = map Some [0, 0, 0x80, 0xBF, 0, 0, 0, 0xC0, 0, 0, 0x40, 0xC0, 0, 0, 0x80, 0xC0]
                    @ replicate 238 None @ [Some 1, Some 0]"
  by (simp add: turned_def reflected_def set_block_def segment_path_def SkPathRef_ctor_def
      block_def)

lemma turned_fields:
  "fVerbCnt turned = 2" "fPointCnt turned = 2" "fRefCnt turned = 1" "fGenerationID turned = 2"
  "fConicWeights turned = []" "fFreeSpace turned = 238" "currSize turned = 256"
  "fPoints turned \<noteq> None"
  by (simp_all add: turned_def reflected_def set_block_def segment_path_def SkPathRef_ctor_def
      currSize_def)

lemma turned_live:
  "deref turned_world 0 = Some turned" "deref turned_world 1 = Some stamped"
  "deref turned_world (Suc 0) = Some stamped"
  by (simp_all add: deref_def turned_world_def)

lemma turned_wf: "well_formed turned" "well_formed stamped"
proof -
  show "well_formed turned"
    by (simp add: well_formed_def validate_def size_equation_def turned_block
        turned_fields sizeof_SkPoint_def sizeof_uint8_def word_sle_eq)
  show "well_formed stamped" using segment_wf by (simp add: stamped_def wf_frame)
qed

lemma turned_points:
  "point_bytes turned = map Some [0, 0, 0x80, 0xBF, 0, 0, 0, 0xC0, 0, 0, 0x40, 0xC0, 0, 0, 0x80, 0xC0]"
  "point_bytes stamped = map Some [0, 0, 0x80, 0x3F, 0, 0, 0, 0x40, 0, 0, 0x40, 0x40, 0, 0, 0x80, 0x40]"
  "verb_bytes turned = [Some 1, Some 0]" "verb_bytes stamped = [Some 1, Some 0]"
  by (simp_all add: point_bytes_def verb_bytes_def turned_block turned_fields stamped_block
      stamped_fields segment_block)

lemma turned_release: "operator_eq True turned_world 0 1 = Some (True, turned_world)"
  by (simp add: operator_eq_def turned_live turned_fields stamped_fields)

lemma turned_debug: "operator_eq False turned_world 0 1 = None"
proof -
  have b: "verbsMemBegin turned = 254" "verbsMemBegin segment_path = 254"
    by (simp_all add: verbsMemBegin_def turned_fields segment_fields)
  have v: "memcmp_differs (block turned) (verbsMemBegin turned) (block stamped)
             (verbsMemBegin segment_path) (unat (2 * sizeof_uint8 :: size_t)) = Some False"
    by (simp add: memcmp_differs_def mem_read_def b turned_block stamped_block segment_block
        sizeof_uint8_def)
  have p: "memcmp_differs (block turned) 0 (block stamped) 0
             (unat (2 * sizeof_SkPoint :: size_t)) = Some True"
    by (simp add: memcmp_differs_def mem_read_def turned_block stamped_block segment_block
        sizeof_SkPoint_def)
  show ?thesis
    by (simp add: operator_eq_def turned_live turned_fields stamped_fields v p assert_not_def)
qed

text \<open>
  Claim C4 says that \<^verbatim>\<open>operator==\<close> returns true exactly when the point counts, verb
  counts, verb bytes, point bytes and conic weights match, and that the generation-ID
  shortcut never disagrees with the deep comparison. It does after this sequence. Two
  uniquely owned storages hold the same segment and have no generation ID. A first
  comparison finds them equal and gives both the ID 2 (lines 333 to 337).
  \<^verbatim>\<open>CreateTransformedCopy\<close> then reflects the points of the first in place: its destination
  is uniquely owned and is written to as it is, and \<^verbatim>\<open>fGenerationID\<close> is left alone, where
  the \<^verbatim>\<open>Editor\<close> (line 57), \<^verbatim>\<open>Rewind\<close> (line 239) and \<^verbatim>\<open>resetToSize\<close> (line 426) set
  it to 0 when the content is about to change. Both storages still pass \<^verbatim>\<open>validate\<close>. The
  second comparison returns true in a build with \<open>SK_RELEASE\<close> (line 307) although the
  points differ, and fails \<^verbatim>\<open>SkASSERT(!genIDMatch)\<close> of line 324 in a build without.
\<close>

theorem genID_shortcut_after_transform:
  "(\<forall>SK_RELEASE. operator_eq SK_RELEASE twin_world 0 1 = Some (True, stamped_world)) \<and>
   CreateTransformedCopy sample_collaborators stamped_world 0 0 reflection
     = Some (turned_world, 0) \<and>
   deref turned_world 0 = Some turned \<and> deref turned_world 1 = Some stamped \<and>
   validate turned \<and> validate stamped \<and>
   fGenerationID turned = 2 \<and> fGenerationID stamped = 2 \<and>
   verb_bytes turned = verb_bytes stamped \<and> point_bytes turned \<noteq> point_bytes stamped \<and>
   operator_eq True turned_world 0 1 = Some (True, turned_world) \<and>
   operator_eq False turned_world 0 1 = None"
proof -
  have w: "validate turned" "validate stamped"
    using turned_wf by (simp_all add: well_formed_def)
  have n: "point_bytes turned \<noteq> point_bytes stamped" by (simp add: turned_points)
  have e: "verb_bytes turned = verb_bytes stamped" by (simp add: turned_points)
  from twin_compared stamped_turned turned_live(1,2) w turned_fields(4) stamped_fields(6) e n
    turned_release turned_debug
  show ?thesis by blast
qed

text \<open>
  The last step alone: with \<open>SK_RELEASE\<close> the comparison of the two storages is true on
  different point bytes, without it the comparison has no result.
\<close>

theorem genID_shortcut_after_transform_witness:
  "operator_eq True turned_world 0 1 = Some (True, turned_world) \<and>
   point_bytes turned
     = map Some [0, 0, 0x80, 0xBF, 0, 0, 0, 0xC0, 0, 0, 0x40, 0xC0, 0, 0, 0x80, 0xC0] \<and>
   point_bytes stamped
     = map Some [0, 0, 0x80, 0x3F, 0, 0, 0, 0x40, 0, 0, 0x40, 0x40, 0, 0, 0x80, 0x40] \<and>
   point_bytes turned \<noteq> point_bytes stamped \<and>
   operator_eq False turned_world 0 1 = None"
  using genID_shortcut_after_transform turned_points(1,2) by blast

section \<open>A stamp assigned while an editor is attached\<close>









section \<open>The allocation-size equation\<close>

lemma sk_realloc_throw_length: "length (sk_realloc_throw p n) = n"
  by (auto simp: sk_realloc_throw_def split: option.splits)

lemma memmove_length: "memmove m d s n = Some m' \<Longrightarrow> length m' = length m"
  by (auto simp: memmove_def split: option.splits dest: mem_write_Some)

lemma realloc_moved_size:
  "memmove (sk_realloc_throw P (unat (N::size_t))) a b c = Some m \<Longrightarrow> of_nat (length m) = N"
  by (drule memmove_length) (simp add: sk_realloc_throw_length)

lemma makeSpace_Some:
  assumes "makeSpace s n = Some s'"
  shows "s' = s \<or> (\<exists>G m. s' = s\<lparr>fPoints := Some m, fFreeSpace := fFreeSpace s + G\<rparr> \<and>
                       currSize s' = currSize s + G)"
proof (cases "n - fFreeSpace s \<le>s 0")
  case True
  with assms show ?thesis by (simp add: makeSpace_def Let_def)
next
  case False
  define G where "G = (let g0 = (n - fFreeSpace s + 7) AND NOT 7;
                           g1 = (if g0 < currSize s then currSize s else g0)
                       in if g1 <s kMinSize then kMinSize else g1)"
  have "makeSpace s n =
     (case memmove (sk_realloc_throw (fPoints s) (unat (currSize s + G)))
          (unat (currSize s + G - scast (fVerbCnt s) * sizeof_uint8))
          (unat (currSize s - scast (fVerbCnt s) * sizeof_uint8))
          (unat (scast (fVerbCnt s) * sizeof_uint8 :: size_t)) of
        None \<Rightarrow> None
      | Some m \<Rightarrow> Some (s\<lparr>fPoints := Some m, fFreeSpace := fFreeSpace s + G\<rparr>))"
    using False unfolding makeSpace_def G_def Let_def by simp
  with assms obtain m where
    m: "memmove (sk_realloc_throw (fPoints s) (unat (currSize s + G)))
          (unat (currSize s + G - scast (fVerbCnt s) * sizeof_uint8))
          (unat (currSize s - scast (fVerbCnt s) * sizeof_uint8))
          (unat (scast (fVerbCnt s) * sizeof_uint8 :: size_t)) = Some m"
    and s': "s' = s\<lparr>fPoints := Some m, fFreeSpace := fFreeSpace s + G\<rparr>"
    by (auto split: option.splits)
  have "currSize s' = currSize s + G"
    using realloc_moved_size [OF m] by (simp add: s' currSize_def)
  with s' show ?thesis by blast
qed

lemma makeSpace_size_equation:
  assumes "makeSpace s n = Some s'" and "size_equation s"
  shows "size_equation s'"
  using makeSpace_Some [OF assms(1)] assms(2)
  by (auto simp: size_equation_def)

lemma scast_int_add:
  assumes "int_add a b = Some c"
  shows "(scast c :: size_t) = scast a + scast b"
proof -
  from assms have c: "c = a + b" and s: "sint (a + b) = sint a + sint b"
    by (auto simp: int_add_def split: if_splits)
  have e: "\<And>x::int32. (scast x :: size_t) = of_int (sint x)" by (rule scast_eq)
  show ?thesis unfolding e c s by simp
qed

lemma grow_size_equation:
  assumes g: "grow s nv np = Some s'" and eq: "size_equation s"
  shows "size_equation s'"
proof -
  define space :: size_t where "space = scast nv * sizeof_uint8 + scast np * sizeof_SkPoint"
  from g obtain s1 v p where
    m: "makeSpace s space = Some s1" and v: "int_add (fVerbCnt s1) nv = Some v"
    and p: "int_add (fPointCnt s1) np = Some p"
    and s': "s' = s1\<lparr>fVerbCnt := v, fPointCnt := p, fFreeSpace := fFreeSpace s1 - space,
                      fBoundsIsDirty := True\<rparr>"
    by (auto simp: grow_def Let_def space_def split: option.splits)
  have e1: "size_equation s1" using m eq by (rule makeSpace_size_equation)
  have c: "currSize s' = currSize s1" by (simp add: s' currSize_def)
  show ?thesis
    using e1 unfolding size_equation_def c
    by (simp add: s' scast_int_add [OF v] scast_int_add [OF p] space_def sizeof_uint8_def
        sizeof_SkPoint_def algebra_simps)
qed

lemma cleared_size_equation:
  "size_equation (s\<lparr>fBoundsIsDirty := True, fGenerationID := 0, fPoints := None,
                    fFreeSpace := 0, fVerbCnt := 0, fPointCnt := 0\<rparr>)"
  by (simp add: size_equation_def currSize_def)

lemma resetToSize_size_equation:
  assumes r: "resetToSize s v p c rv rp = Some s'"
    and b: "reallocates s v p rv rp \<or> (rv = 0 \<and> rp = 0)"
  shows "size_equation s'"
proof (cases "reallocates s v p rv rp")
  case True
  define newSize :: size_t where "newSize = sizeof_uint8 * scast v + sizeof_SkPoint * scast p"
  from r resetToSize_realloc [OF True, of c] obtain s1 where
    m: "makeSpace (cleared s) (newSize + (sizeof_uint8 * scast rv + sizeof_SkPoint * scast rp))
          = Some s1"
    and s': "s' = s1\<lparr>fVerbCnt := v, fPointCnt := p, fFreeSpace := fFreeSpace s1 - newSize,
                      fConicWeights := setCount (fConicWeights s1) c\<rparr>"
    by (auto simp: newSize_def split: option.splits)
  have "size_equation (cleared s)" by (simp add: cleared_def size_equation_def currSize_def)
  with m have e1: "size_equation s1" by (rule makeSpace_size_equation)
  from makeSpace_Some [OF m] have z: "fVerbCnt s1 = 0" "fPointCnt s1 = 0"
    by (auto simp: cleared_def)
  have cs: "currSize s' = currSize s1" by (simp add: s' currSize_def)
  show ?thesis
    using e1 unfolding size_equation_def cs
    by (simp add: s' z newSize_def algebra_simps)
next
  case False
  with b have z: "rv = 0" "rp = 0" by simp_all
  from r resetToSize_reuse [OF False, of c] have
    s': "s' = s\<lparr>fBoundsIsDirty := True, fGenerationID := 0, fPointCnt := p, fVerbCnt := v,
             fFreeSpace := currSize s - ((sizeof_uint8 * scast v + sizeof_SkPoint * scast p)
               + (sizeof_uint8 * scast rv + sizeof_SkPoint * scast rp)),
             fConicWeights := setCount (fConicWeights s) c\<rparr>"
    by simp
  show ?thesis by (simp add: s' z size_equation_def currSize_def)
qed

lemma unref_length: "length (heap (unref w h)) = length (heap w)"
  by (simp add: unref_def store_def split: option.splits)

lemma SkNEW_parts: "fst (SkNEW w) = length (heap w)"
  "length (heap (snd (SkNEW w))) = Suc (length (heap w))"
  by (simp_all add: SkNEW_def)

lemma Rewind_shared_eq:
  assumes d: "deref w h = Some s" and nu: "\<not> unique s"
  shows "Rewind w h =
     (case resetToSize SkPathRef_ctor 0 0 0 (fVerbCnt s) (fPointCnt s) of
        None \<Rightarrow> None
      | Some n \<Rightarrow> Some (store (unref (w\<lparr>heap := heap w @ [Some SkPathRef_ctor]\<rparr>) h)
                             (length (heap w)) n, length (heap w)))"
  unfolding Rewind_def SkNEW_def Let_def using d nu by simp

lemma Rewind_shared:
  assumes d: "deref w h = Some s" and nu: "\<not> unique s" and r: "Rewind w h = Some (w', h')"
  shows "\<exists>n. resetToSize SkPathRef_ctor 0 0 0 (fVerbCnt s) (fPointCnt s) = Some n \<and>
             deref w' h' = Some n"
proof (cases "resetToSize SkPathRef_ctor 0 0 0 (fVerbCnt s) (fPointCnt s)")
  case None
  with r show ?thesis unfolding Rewind_shared_eq [OF d nu] by simp
next
  case (Some n)
  define w1 where "w1 = unref (w\<lparr>heap := heap w @ [Some SkPathRef_ctor]\<rparr>) h"
  have l: "length (heap w) < length (heap w1)"
    unfolding w1_def unref_length by simp
  note r' = r [unfolded Rewind_shared_eq [OF d nu] Some option.case option.inject prod.inject,
               folded w1_def]
  then have e: "w' = store w1 (length (heap w)) n" "h' = length (heap w)" by blast+
  have "deref (store w1 (length (heap w)) n) (length (heap w)) = Some n"
    using l by (simp add: deref_store)
  then have "deref w' h' = Some n" unfolding e .
  with Some show ?thesis by blast
qed

lemma Rewind_unique_eq:
  assumes d: "deref w h = Some s" and u: "unique s"
  shows "Rewind w h =
     Some (store w h (s\<lparr>fBoundsIsDirty := True, fVerbCnt := 0, fPointCnt := 0,
                         fFreeSpace := currSize s, fGenerationID := 0,
                         fConicWeights := []\<rparr>), h)"
  unfolding Rewind_def using d u by simp

lemma Rewind_size_equation:
  assumes d: "deref w h = Some s" and nn: "0 \<le>s fVerbCnt s" "0 \<le>s fPointCnt s"
    and r: "Rewind w h = Some (w', h')" and d': "deref w' h' = Some s'"
  shows "size_equation s'"
proof (cases "unique s")
  case True
  define t where "t = s\<lparr>fBoundsIsDirty := True, fVerbCnt := 0, fPointCnt := 0,
                         fFreeSpace := currSize s, fGenerationID := 0,
                         fConicWeights := []\<rparr>"
  from d have l: "h < length (heap w)" by (rule deref_live)
  note r' = r [unfolded Rewind_unique_eq [OF d True] option.inject prod.inject, folded t_def]
  then have e: "w' = store w h t" "h' = h" by blast+
  have "deref (store w h t) h = Some t" using l by (simp add: deref_store)
  then have "deref w' h' = Some t" unfolding e .
  with d' have "s' = t" by simp
  then show ?thesis by (simp add: t_def size_equation_def currSize_def)
next
  case False
  from Rewind_shared [OF d False r] obtain n where
    n: "resetToSize SkPathRef_ctor 0 0 0 (fVerbCnt s) (fPointCnt s) = Some n"
    and dn: "deref w' h' = Some n"
    by blast
  from dn d' have e': "s' = n" by simp
  have z: "0 \<le>s (0::int32)" by (simp add: word_sle_eq)
  have c: "unat (currSize SkPathRef_ctor) = 0" by (simp add: SkPathRef_ctor_def currSize_def)
  have ri: "reallocates SkPathRef_ctor 0 0 (fVerbCnt s) (fPointCnt s) =
          (0 < unat (0::int32) + 8 * unat (0::int32) + unat (fVerbCnt s) + 8 * unat (fPointCnt s)
           \<or> 3 * (unat (0::int32) + 8 * unat (0::int32) + unat (fVerbCnt s) + 8 * unat (fPointCnt s))
               \<le> 0 - (unat (0::int32) + 8 * unat (0::int32) + unat (fVerbCnt s)
                         + 8 * unat (fPointCnt s)))"
    using reallocates_iff [OF ctor_wf z z nn] unfolding c .
  have "reallocates SkPathRef_ctor 0 0 (fVerbCnt s) (fPointCnt s) \<or>
          (fVerbCnt s = 0 \<and> fPointCnt s = 0)"
  proof (cases "fVerbCnt s = 0 \<and> fPointCnt s = 0")
    case True then show ?thesis by blast
  next
    case False
    then have "0 < unat (fVerbCnt s) + 8 * unat (fPointCnt s)"
      by (auto simp: unat_gt_0)
    then show ?thesis unfolding ri by simp
  qed
  with n show ?thesis unfolding e' by (rule resetToSize_size_equation)
qed

lemma Editor_grow_size_equation:
  assumes d: "deref w e = Some s" and eq: "size_equation s"
    and r: "Editor_grow w e nv np = Some (w', a, b)" and d': "deref w' e = Some s'"
  shows "size_equation s'"
proof (cases "grow s nv np")
  case None
  with r d show ?thesis by (simp add: Editor_grow_def Let_def)
next
  case (Some e1)
  from d have l: "e < length (heap w)" by (rule deref_live)
  have "Editor_grow w e nv np
          = Some (store w e e1, currSize e1 - scast (fVerbCnt s),
                  sizeof_SkPoint * scast (fPointCnt s))"
    using d Some by (simp add: Editor_grow_def Let_def)
  note r' = r [unfolded this option.inject prod.inject]
  then have e: "w' = store w e e1" by blast
  have "deref (store w e e1) e = Some e1" using l by (simp add: deref_store)
  with d' have "s' = e1" unfolding e by simp
  moreover have "size_equation e1" using Some eq by (rule grow_size_equation)
  ultimately show ?thesis by simp
qed

lemma Editor_resetToSize_size_equation:
  assumes d: "deref w e = Some s"
    and r: "Editor_resetToSize w e v p c = Some w'" and d': "deref w' e = Some s'"
  shows "size_equation s'"
proof (cases "resetToSize s v p c 0 0")
  case None
  with r d show ?thesis by (simp add: Editor_resetToSize_def)
next
  case (Some e1)
  from d have l: "e < length (heap w)" by (rule deref_live)
  have "Editor_resetToSize w e v p c = Some (store w e e1)"
    using d Some by (simp add: Editor_resetToSize_def)
  note r' = r [unfolded this option.inject]
  then have e: "w' = store w e e1" by blast
  have "deref (store w e e1) e = Some e1" using l by (simp add: deref_store)
  with d' have "s' = e1" unfolding e by simp
  moreover have "size_equation e1" using Some by (rule resetToSize_size_equation) simp
  ultimately show ?thesis by simp
qed

text \<open>
  Where the allocation-size equation is kept. The new storage satisfies it, and from a
  storage that satisfies it, so does the result of every call that returns of
  \<^verbatim>\<open>makeSpace\<close>, of \<^verbatim>\<open>grow\<close>, of \<^verbatim>\<open>resetToSize\<close> when it reallocates or is given no
  reserve, of \<^verbatim>\<open>Rewind\<close> (on counts that are not negative), of \<^verbatim>\<open>Editor::grow\<close> and of
  \<^verbatim>\<open>Editor::resetToSize\<close>. What is left out is the reuse branch of \<^verbatim>\<open>resetToSize\<close> with a
  reserve (line 448).
\<close>

theorem size_equation_preserved:
  assumes eq: "size_equation s"
  shows "size_equation SkPathRef_ctor \<and>
     (\<forall>n s'. makeSpace s n = Some s' \<longrightarrow> size_equation s') \<and>
     (\<forall>nv np s'. grow s nv np = Some s' \<longrightarrow> size_equation s') \<and>
     (\<forall>v p c rv rp s'. resetToSize s v p c rv rp = Some s' \<and>
         (reallocates s v p rv rp \<or> rv = 0 \<and> rp = 0) \<longrightarrow> size_equation s') \<and>
     (\<forall>w h w' h' s'. deref w h = Some s \<and> 0 \<le>s fVerbCnt s \<and> 0 \<le>s fPointCnt s \<and>
         Rewind w h = Some (w', h') \<and> deref w' h' = Some s' \<longrightarrow> size_equation s') \<and>
     (\<forall>w e nv np w' a b s'. deref w e = Some s \<and> Editor_grow w e nv np = Some (w', a, b) \<and>
         deref w' e = Some s' \<longrightarrow> size_equation s') \<and>
     (\<forall>w e v p c w' s'. deref w e = Some s \<and> Editor_resetToSize w e v p c = Some w' \<and>
         deref w' e = Some s' \<longrightarrow> size_equation s')"
proof (intro conjI allI impI)
  show "size_equation SkPathRef_ctor"
    by (simp add: size_equation_def SkPathRef_ctor_def currSize_def)
next
  fix n s' assume "makeSpace s n = Some s'"
  then show "size_equation s'" using eq by (rule makeSpace_size_equation)
next
  fix nv np s' assume "grow s nv np = Some s'"
  then show "size_equation s'" using eq by (rule grow_size_equation)
next
  fix v p c rv rp s'
  assume a: "resetToSize s v p c rv rp = Some s' \<and>
               (reallocates s v p rv rp \<or> rv = 0 \<and> rp = 0)"
  from a have 1: "resetToSize s v p c rv rp = Some s'" by (rule conjunct1)
  from a have 2: "reallocates s v p rv rp \<or> rv = 0 \<and> rp = 0" by (rule conjunct2)
  from 1 2 show "size_equation s'" by (rule resetToSize_size_equation)
next
  fix w h w' h' s'
  assume a: "deref w h = Some s \<and> 0 \<le>s fVerbCnt s \<and> 0 \<le>s fPointCnt s \<and>
         Rewind w h = Some (w', h') \<and> deref w' h' = Some s'"
  then have "deref w h = Some s" "0 \<le>s fVerbCnt s" "0 \<le>s fPointCnt s"
    "Rewind w h = Some (w', h')" "deref w' h' = Some s'" by blast+
  then show "size_equation s'" by (rule Rewind_size_equation)
next
  fix w e nv np w' a b s'
  assume a: "deref w e = Some s \<and> Editor_grow w e nv np = Some (w', a, b) \<and>
         deref w' e = Some s'"
  then have "deref w e = Some s" "Editor_grow w e nv np = Some (w', a, b)"
    "deref w' e = Some s'" by blast+
  with eq show "size_equation s'" by (blast intro: Editor_grow_size_equation)
next
  fix w e v p c w' s'
  assume a: "deref w e = Some s \<and> Editor_resetToSize w e v p c = Some w' \<and>
         deref w' e = Some s'"
  then have "deref w e = Some s" "Editor_resetToSize w e v p c = Some w'"
    "deref w' e = Some s'" by blast+
  then show "size_equation s'" by (rule Editor_resetToSize_size_equation)
qed

lemma sample_calls_return:
  "grow sample_path 1 1 \<noteq> None" "makeSpace sample_path 300 \<noteq> None"
  "resetToSize sample_path 100 50 0 0 0 \<noteq> None"
  by code_simp+

theorem size_equation_preserved_witness:
  "size_equation sample_path \<and>
   (\<exists>s'. makeSpace sample_path 300 = Some s' \<and> size_equation s') \<and>
   (\<exists>s'. grow sample_path 1 1 = Some s' \<and> size_equation s') \<and>
   (\<exists>s'. resetToSize sample_path 100 50 0 0 0 = Some s' \<and> size_equation s')"
proof -
  have e: "size_equation sample_path"
    using sample_path_wf by (simp add: well_formed_def validate_def)
  note p = size_equation_preserved [OF e]
  from sample_calls_return obtain a b c where
    r: "makeSpace sample_path 300 = Some a" "grow sample_path 1 1 = Some b"
       "resetToSize sample_path 100 50 0 0 0 = Some c"
    by blast
  from p r(1) have a: "size_equation a" by simp
  from p r(2) have b: "size_equation b" by simp
  from p have "\<forall>v p c rv rp s'. resetToSize sample_path v p c rv rp = Some s' \<and>
         (reallocates sample_path v p rv rp \<or> rv = 0 \<and> rp = 0) \<longrightarrow> size_equation s'"
    by (elim conjE)
  from this [rule_format, of 100 50 0 0 0 c] r(3) have c: "size_equation c" by simp
  from e r a b c show ?thesis by blast
qed

end
